theory Spec2Isabelle
  imports Main "HOL-Library.AList"
begin

section \<open>JavaScript values, objects and errors\<close>

text \<open>
  The handlers of \<^verbatim>\<open>search/lib/api/wfs.js\<close> pass around plain JavaScript objects
  (query parameters, CMR parameters). A value is one of the JSON shapes below; numbers are
  the integers (page numbers, page sizes, hit counts).
\<close>

datatype jsval = JNull | JBool bool | JNum int | JStr string | JArr "jsval list"

text \<open>
  An object with string keys keeps its keys in insertion order: an association list with
  unique keys. \<^verbatim>\<open>o.k = v\<close> is \<^term>\<open>AList.update\<close> (replace in place, or append),
  \<^verbatim>\<open>delete o.k\<close> is \<^term>\<open>AList.delete\<close>, \<^verbatim>\<open>o.k\<close> is \<^term>\<open>map_of\<close>
  (\<^term>\<open>None\<close> for \<^verbatim>\<open>undefined\<close>).
\<close>

type_synonym obj = "(string \<times> jsval) list"

text \<open>Truthiness, as \<^verbatim>\<open>if (v)\<close> and \<^verbatim>\<open>!v\<close> read a value.\<close>

fun truthy :: "jsval \<Rightarrow> bool" where
  "truthy JNull = False"
| "truthy (JBool b) = b"
| "truthy (JNum n) = (n \<noteq> 0)"
| "truthy (JStr s) = (s \<noteq> [])"
| "truthy (JArr vs) = True"

definition truthy_opt :: "jsval option \<Rightarrow> bool" where
  "truthy_opt v = (case v of None \<Rightarrow> False | Some w \<Rightarrow> truthy w)"

definition truthy_str :: "string option \<Rightarrow> bool" where
  "truthy_str v = (case v of None \<Rightarrow> False | Some s \<Rightarrow> s \<noteq> [])"

text \<open>\<^verbatim>\<open>_.has(o, k)\<close>: the key is an own property of the object.\<close>

definition has :: "obj \<Rightarrow> string \<Rightarrow> bool" where
  "has ob k = (map_of ob k \<noteq> None)"

text \<open>A template literal renders \<^verbatim>\<open>undefined\<close> by its name.\<close>

definition str_of :: "string option \<Rightarrow> string" where
  "str_of v = (case v of None \<Rightarrow> ''undefined'' | Some s \<Rightarrow> s)"

text \<open>\<^verbatim>\<open>String(v)\<close>, which \<^verbatim>\<open>URLSearchParams\<close> applies to every value it stores.\<close>

definition digit_char :: "nat \<Rightarrow> char" where
  "digit_char d =
     (if d = 0 then CHR ''0'' else if d = 1 then CHR ''1'' else if d = 2 then CHR ''2''
      else if d = 3 then CHR ''3'' else if d = 4 then CHR ''4'' else if d = 5 then CHR ''5''
      else if d = 6 then CHR ''6'' else if d = 7 then CHR ''7'' else if d = 8 then CHR ''8''
      else CHR ''9'')"

fun dec_nat :: "nat \<Rightarrow> string" where
  "dec_nat n = (if n < 10 then [digit_char n] else dec_nat (n div 10) @ [digit_char (n mod 10)])"

fun join_with :: "string \<Rightarrow> string list \<Rightarrow> string" where
  "join_with sep [] = []"
| "join_with sep [x] = x"
| "join_with sep (x # y # ys) = x @ sep @ join_with sep (y # ys)"

fun js_String :: "jsval \<Rightarrow> string" where
  "js_String JNull = ''null''"
| "js_String (JBool b) = (if b then ''true'' else ''false'')"
| "js_String (JNum n) = (if n < 0 then ''-'' @ dec_nat (nat (- n)) else dec_nat (nat n))"
| "js_String (JStr s) = s"
| "js_String (JArr vs) = join_with '','' (map (\<lambda>v. if v = JNull then [] else js_String v) vs)"

text \<open>
  A thrown value. \<^verbatim>\<open>InvalidSortPropertyError\<close> is the class of
  \<^verbatim>\<open>stacExtension.errors\<close> that \<^verbatim>\<open>getItems\<close> tells apart; \<^verbatim>\<open>TypeError\<close> is what the
  runtime throws on a call of a method the value does not have.
\<close>

datatype error = Error string | TypeError string | InvalidSortPropertyError string

fun message :: "error \<Rightarrow> string" where
  "message (Error m) = m"
| "message (TypeError m) = m"
| "message (InvalidSortPropertyError m) = m"

text \<open>\<^verbatim>\<open>`${err}`\<close>: the error's name, a colon and its message.\<close>

fun err_toString :: "error \<Rightarrow> string" where
  "err_toString (Error m) = ''Error: '' @ m"
| "err_toString (TypeError m) = ''TypeError: '' @ m"
| "err_toString (InvalidSortPropertyError m) = ''InvalidSortPropertyError: '' @ m"

section \<open>The Catalog Service (CMR) as the handlers see it\<close>

text \<open>
  A native collection record: the handlers read only its \<^verbatim>\<open>id\<close>; the rest of the record
  is carried along.
\<close>

record cmr_coll =
  coll_id :: string
  coll_data :: obj

text \<open>
  \<^verbatim>\<open>cmr.findGranules\<close> is given either a plain parameter object or a
  \<^verbatim>\<open>URLSearchParams\<close>: an ordered list of name/value pairs, where a name may repeat.
\<close>

datatype granule_query = ParamsObject obj | SearchParams "(string \<times> string) list"

text \<open>
  Every call the handlers make on the \<^verbatim>\<open>cmr\<close> module is recorded, in order, so that
  "which native queries were issued" is a value of the model.
\<close>

datatype cmr_call =
    ConvertParams string obj
  | FindCollections obj
  | FindGranules granule_query
  | StacIdToCmrCollectionId string "string option"
  | StacCollectionToCmrParams string "string option"
  | GetGranuleTemporalFacets obj "string option" "string option" "string option"

section \<open>findCloudCollections\<close>

text \<open>
  \<^verbatim>\<open>
  const allCloudCollections = [];
  for (let i = 1; i < 10000; i++) {
    params.page_num = i;
    const collections = await cmr.findCollections(params);
    for (let j = 0; j < collections.length; j++) {
      allCloudCollections.push(collections[j].id);
    }
    if (collections.length < 2000) {
      break;
    }
  }
  \<close>
  The loop, from page \<open>i\<close> on: \<open>acc\<close> is \<^verbatim>\<open>allCloudCollections\<close>, \<open>lg\<close> the calls made
  so far. A rejected page request leaves the function at once.
\<close>

function findCloudCollections_loop ::
  "(obj \<Rightarrow> error + cmr_coll list) \<Rightarrow> obj \<Rightarrow> nat \<Rightarrow> string list \<Rightarrow> cmr_call list
     \<Rightarrow> (error + string list) \<times> cmr_call list" where
  "findCloudCollections_loop findColl params i acc lg =
     (if i < 10000 then
        (let params1 = AList.update ''page_num'' (JNum (int i)) params;
             lg1 = lg @ [FindCollections params1]
         in case findColl params1 of
              Inl e \<Rightarrow> (Inl e, lg1)
            | Inr collections \<Rightarrow>
                (let acc1 = acc @ map coll_id collections
                 in if length collections < 2000 then (Inr acc1, lg1)
                    else findCloudCollections_loop findColl params1 (Suc i) acc1 lg1))
      else (Inr acc, lg))"
  by pat_completeness auto
termination
  by (relation "measure (\<lambda>(findColl, params, i, acc, lg). 10000 - i)") auto

declare findCloudCollections_loop.simps [simp del]

definition findCloudCollections ::
  "(obj \<Rightarrow> error + cmr_coll list) \<Rightarrow> string \<Rightarrow> jsval option
     \<Rightarrow> (error + string list) \<times> cmr_call list" where
  "findCloudCollections findColl providerId collectionConceptIds =
     (let params0 = [(''provider_short_name'', JStr providerId),
                     (''tag_key'', JStr ''gov.nasa.earthdatacloud.s3''),
                     (''page_size'', JNum 2000)];
          params = (case collectionConceptIds of
                      None \<Rightarrow> params0
                    | Some ids \<Rightarrow>
                        if truthy ids then AList.update ''concept_id'' ids params0 else params0)
      in findCloudCollections_loop findColl params 1 [] [])"

text \<open>
  The parameter object of the request for page \<open>n\<close>, written out: provider, the cloud tag,
  the page size 2000, the caller's concept ids when there are any, and the page number.
\<close>

definition cloud_page_query :: "string \<Rightarrow> jsval option \<Rightarrow> nat \<Rightarrow> obj" where
  "cloud_page_query providerId collectionConceptIds n =
     [(''provider_short_name'', JStr providerId),
      (''tag_key'', JStr ''gov.nasa.earthdatacloud.s3''),
      (''page_size'', JNum 2000)]
     @ (case collectionConceptIds of
          None \<Rightarrow> []
        | Some ids \<Rightarrow> if truthy ids then [(''concept_id'', ids)] else [])
     @ [(''page_num'', JNum (int n))]"

section \<open>Requests, settings, responses and the collaborators outside this file\<close>

text \<open>
  What a handler reads of the Express request: \<^verbatim>\<open>request.params.providerId\<close>,
  \<^verbatim>\<open>request.params.collectionId\<close> (absent on a route without it),
  \<^verbatim>\<open>request.params['0']\<close> (the wildcard of the browse route), \<^verbatim>\<open>request.query\<close>,
  \<^verbatim>\<open>request.body\<close>, and of \<^verbatim>\<open>request.apiGateway.event\<close> the method and the path.
\<close>

record request =
  params_providerId :: string
  params_collectionId :: "string option"
  params_0 :: string
  query :: obj
  body :: obj
  event_httpMethod :: string
  event_path :: string

text \<open>\<^verbatim>\<open>settings\<close> and the process environment, as far as the handlers read them.\<close>

record settings =
  cmrStacRelativeRootUrl :: string
  stac_version :: string
  BROWSE_PATH :: "string option"

text \<open>
  What a handler does with \<^verbatim>\<open>response\<close>: a status and a JSON payload (a message string or
  a document; \<^verbatim>\<open>response.json\<close> alone is status 200), or nothing at all, when an exception
  leaves the handler and its promise is rejected.
\<close>

datatype 'd payload = Message string | Document 'd

datatype 'd outcome = Response nat "'d payload" | Rejected error

record link =
  rel :: string
  href :: string
  title :: "string option"

text \<open>
  Modelled from the spec: \<^verbatim>\<open>wfs.createLink\<close> of \<^verbatim>\<open>../util\<close> is not among the sources.
  The spec names links by their relation (self, root, prev, next, child), so the link made
  for a relation carries that relation, the address and the title it was given.
\<close>

definition createLink :: "string \<Rightarrow> string \<Rightarrow> string \<Rightarrow> link" where
  "createLink r h t = \<lparr>rel = r, href = h, title = Some t\<rparr>"

text \<open>The result of \<^verbatim>\<open>generateNavLinks(event)\<close>.\<close>

record nav =
  currPage :: int
  prevResultsLink :: string
  nextResultsLink :: string

record 'g granulesResult =
  granules :: "'g list"
  hits :: int

record facets =
  years :: "string list"
  months :: "string list"
  days :: "string list"
  itemids :: "string list"

text \<open>A WFS collection document, of which the handlers touch the links only.\<close>

record 'c wfs_coll =
  coll_links :: "link list"
  coll_doc :: 'c

record 'c collectionsResponse =
  cr_id :: string
  cr_stac_version :: string
  cr_description :: string
  cr_license :: string
  cr_type :: string
  links :: "link list"
  collections :: "'c wfs_coll list"

text \<open>
  The functions of the modules \<^verbatim>\<open>../util\<close>, \<^verbatim>\<open>../cmr\<close>, \<^verbatim>\<open>../convert\<close>,
  \<^verbatim>\<open>../validator\<close> and \<^verbatim>\<open>../stac/extension\<close> that the handlers call: parameters of the
  model. One that awaits the Catalog Service or validates may throw (\<^term>\<open>Inl\<close>, or
  \<^term>\<open>Some\<close> error for \<^verbatim>\<open>assertValid\<close>). \<open>parseNumber\<close> is \<^verbatim>\<open>Number\<close> on a string:
  the integer it denotes, \<^term>\<open>None\<close> for \<^verbatim>\<open>NaN\<close> and for any value that is not an integer.
  \<open>'g\<close> is a native granule, \<open>'c\<close> the body of a WFS collection, \<open>'d\<close> a STAC feature
  collection.
\<close>

record ('g, 'c, 'd) env =
  generateAppUrl :: "string \<Rightarrow> string"
  generateNavLinks :: nav
  parseNumber :: "string \<Rightarrow> int option"
  prepare :: "obj \<Rightarrow> error + obj"
  convertParams :: "string \<Rightarrow> obj \<Rightarrow> error + obj"
  findCollections :: "obj \<Rightarrow> error + cmr_coll list"
  findGranules :: "granule_query \<Rightarrow> error + 'g granulesResult"
  stacIdToCmrCollectionId :: "string \<Rightarrow> string option \<Rightarrow> error + string option"
  stacCollectionToCmrParams :: "string \<Rightarrow> string option \<Rightarrow> error + obj"
  getGranuleTemporalFacets ::
    "obj \<Rightarrow> string option \<Rightarrow> string option \<Rightarrow> string option \<Rightarrow> error + facets"
  cmrCollToWFSColl :: "cmr_coll \<Rightarrow> 'c wfs_coll"
  cmrGranulesToStac :: "'g list \<Rightarrow> int \<Rightarrow> obj \<Rightarrow> error + 'd"
  assertValid_collections :: "'c collectionsResponse \<Rightarrow> error option"
  assertValid_collection :: "'c wfs_coll \<Rightarrow> error option"
  assertValid_items :: "'d \<Rightarrow> error option"
  format :: "'d \<Rightarrow> jsval option \<Rightarrow> 'g granulesResult \<Rightarrow> obj \<Rightarrow> error + 'd"

section \<open>getCollections\<close>

text \<open>\<^verbatim>\<open>Number(v)\<close>; an array goes through its string.\<close>

fun js_Number :: "(string \<Rightarrow> int option) \<Rightarrow> jsval \<Rightarrow> int option" where
  "js_Number pn JNull = Some 0"
| "js_Number pn (JBool b) = Some (if b then 1 else 0)"
| "js_Number pn (JNum n) = Some n"
| "js_Number pn (JStr s) = pn s"
| "js_Number pn (JArr vs) = pn (js_String (JArr vs))"

text \<open>\<^verbatim>\<open>const pageSize = Number(request.query.limit || 10);\<close>\<close>

definition pageSize_of :: "(string \<Rightarrow> int option) \<Rightarrow> obj \<Rightarrow> int option" where
  "pageSize_of pn q =
     js_Number pn (case map_of q ''limit'' of
                     None \<Rightarrow> JNum 10
                   | Some v \<Rightarrow> if truthy v then v else JNum 10)"

text \<open>The \<^verbatim>\<open>catch\<close> of \<^verbatim>\<open>getCollections\<close>: status 400 and the error's message.\<close>

definition getCollections_catch :: "error \<Rightarrow> 'c collectionsResponse outcome" where
  "getCollections_catch e = Response 400 (Message (message e))"

definition getCollections ::
  "('g, 'c, 'd) env \<Rightarrow> settings \<Rightarrow> request
     \<Rightarrow> 'c collectionsResponse outcome \<times> cmr_call list" where
  "getCollections E S request =
     (let pageSize = pageSize_of (parseNumber E) (query request);
          nv = generateNavLinks E;
          provider = params_providerId request;
          lg1 = [ConvertParams provider (query request)]
      in case convertParams E provider (query request) of
           Inl e \<Rightarrow> (getCollections_catch e, lg1)
         | Inr converted \<Rightarrow>
            (let cloud = (cmrStacRelativeRootUrl S = ''/cloudstac'');
                 cmrParams = (if cloud
                    then AList.update ''tag_key'' (JStr ''gov.nasa.earthdatacloud.s3'') converted
                    else converted);
                 rootName = (if cloud then ''CMR-CLOUDSTAC Root'' else ''CMR-STAC Root'');
                 description = (if cloud
                    then ''All cloud holding collections provided by '' @ provider
                    else ''All collections provided by '' @ provider);
                 lg2 = lg1 @ [FindCollections cmrParams]
             in case findCollections E cmrParams of
                  Inl e \<Rightarrow> (getCollections_catch e, lg2)
                | Inr found \<Rightarrow>
                   (let r0 = \<lparr>cr_id = provider,
                              cr_stac_version = stac_version S,
                              cr_description = description,
                              cr_license = ''not-provided'',
                              cr_type = ''Catalog'',
                              links =
                                [createLink ''self''
                                   (generateAppUrl E (''/'' @ provider @ ''/collections''))
                                   description,
                                 createLink ''root'' (generateAppUrl E ''/'') rootName],
                              collections = map (cmrCollToWFSColl E) found\<rparr>;
                        r1 = (if currPage nv > 1 \<and> length (links r0) > 1
                              then r0\<lparr>links := links r0 @
                                     [\<lparr>rel = ''prev'', href = prevResultsLink nv,
                                       title = None\<rparr>]\<rparr>
                              else r0);
                        r2 = (if Some (int (length (collections r1))) = pageSize
                              then r1\<lparr>links := links r1 @
                                     [\<lparr>rel = ''next'', href = nextResultsLink nv,
                                       title = None\<rparr>]\<rparr>
                              else r1)
                    in case assertValid_collections E r2 of
                         Some e \<Rightarrow> (getCollections_catch e, lg2)
                       | None \<Rightarrow> (Response 200 (Document r2), lg2))))"

section \<open>getCollection\<close>

text \<open>The \<^verbatim>\<open>catch\<close> of \<^verbatim>\<open>getCollection\<close>: status 404 and a message built around the error.\<close>

definition getCollection_catch :: "string \<Rightarrow> string option \<Rightarrow> error \<Rightarrow> 'c wfs_coll outcome" where
  "getCollection_catch providerId collectionId err =
     Response 404 (Message (''Error ['' @ err_toString err
        @ ''] occurred when getting Collection '' @ str_of collectionId
        @ '' for provider '' @ providerId))"

text \<open>The message of every "collection not found" answer of this file.\<close>

definition not_found_message :: "string option \<Rightarrow> string \<Rightarrow> string" where
  "not_found_message collectionId providerId =
     ''Collection ['' @ str_of collectionId @ ''] not found for provider ['' @ providerId @ '']''"

definition getCollection ::
  "('g, 'c, 'd) env \<Rightarrow> settings \<Rightarrow> request \<Rightarrow> 'c wfs_coll outcome \<times> cmr_call list" where
  "getCollection E S request =
     (let providerId = params_providerId request;
          collectionId = params_collectionId request;
          lg1 = [StacCollectionToCmrParams providerId collectionId]
      in case stacCollectionToCmrParams E providerId collectionId of
           Inl e \<Rightarrow> (getCollection_catch providerId collectionId e, lg1)
         | Inr cmrParams \<Rightarrow>
            (let lg2 = lg1 @ [FindCollections cmrParams]
             in case findCollections E cmrParams of
                  Inl e \<Rightarrow> (getCollection_catch providerId collectionId e, lg2)
                | Inr [] \<Rightarrow>
                    (Response 404 (Message (not_found_message collectionId providerId)), lg2)
                | Inr (first # others) \<Rightarrow>
                   (let collectionResponse = cmrCollToWFSColl E first
                    in if truthy_str (BROWSE_PATH S) then
                         (let lg3 = lg2 @ [GetGranuleTemporalFacets cmrParams None None None]
                          in case getGranuleTemporalFacets E cmrParams None None None of
                               Inl e \<Rightarrow> (getCollection_catch providerId collectionId e, lg3)
                             | Inr fs \<Rightarrow>
                                (let pth = ''/'' @ providerId @ ''/collections/''
                                             @ str_of collectionId;
                                     browseLinks = map (\<lambda>y. createLink ''child''
                                        (generateAppUrl E (pth @ ''/'' @ y)) (y @ '' catalog''))
                                        (years fs);
                                     withLinks = collectionResponse
                                        \<lparr>coll_links := coll_links collectionResponse @ browseLinks\<rparr>
                                 in case assertValid_collection E withLinks of
                                      Some e \<Rightarrow>
                                        (getCollection_catch providerId collectionId e, lg3)
                                    | None \<Rightarrow> (Response 200 (Document withLinks), lg3)))
                       else (case assertValid_collection E collectionResponse of
                               Some e \<Rightarrow> (getCollection_catch providerId collectionId e, lg2)
                             | None \<Rightarrow> (Response 200 (Document collectionResponse), lg2)))))"

section \<open>extractParams and getItems\<close>

definition extractParams :: "('g, 'c, 'd) env \<Rightarrow> request \<Rightarrow> error + obj" where
  "extractParams E request =
     (let method = event_httpMethod request
      in if method = ''GET'' then prepare E (query request)
         else if method = ''POST'' then prepare E (body request)
         else Inl (Error (''Invalid httpMethod '' @ method)))"

text \<open>The \<^verbatim>\<open>catch\<close> of \<^verbatim>\<open>getItems\<close>: 422 for an invalid sort property, 400 otherwise.\<close>

fun getItems_catch :: "error \<Rightarrow> 'd outcome" where
  "getItems_catch (InvalidSortPropertyError m) = Response 422 (Message m)"
| "getItems_catch (Error m) = Response 400 (Message m)"
| "getItems_catch (TypeError m) = Response 400 (Message m)"

definition collections_conflict_message :: "string \<Rightarrow> string" where
  "collections_conflict_message collectionId =
     ''Can not have collections param when there is collectionId ['' @ collectionId
       @ ''] specified.''"

text \<open>
  \<^verbatim>\<open>
  if (collectionId) {
    const cmrCollectionId = await cmr.stacIdToCmrCollectionId(providerId, collectionId);
    if (!cmrCollectionId) {
      return response.status(404).json(`Collection [...] not found for provider [...]`);
    } else {
      if (params.collections) {
        return response.status(404).json(`Can not have collections param when ...`);
      }
      params.collections = [collectionId];
    }
  }
  \<close>
  \<^term>\<open>Inl\<close> is the handler's answer when it ends here, \<^term>\<open>Inr\<close> the parameters it goes
  on with.
\<close>

definition getItems_scope ::
  "('g, 'c, 'd) env \<Rightarrow> request \<Rightarrow> obj \<Rightarrow> ('d outcome + obj) \<times> cmr_call list" where
  "getItems_scope E request params =
     (let providerId = params_providerId request;
          collectionId = params_collectionId request
      in case collectionId of
           None \<Rightarrow> (Inr params, [])
         | Some c \<Rightarrow>
             if c = [] then (Inr params, [])
             else
               (let lg = [StacIdToCmrCollectionId providerId collectionId]
                in case stacIdToCmrCollectionId E providerId collectionId of
                     Inl e \<Rightarrow> (Inl (getItems_catch e), lg)
                   | Inr cmrCollectionId \<Rightarrow>
                       if \<not> truthy_str cmrCollectionId
                       then (Inl (Response 404
                                (Message (not_found_message collectionId providerId))), lg)
                       else if truthy_opt (map_of params ''collections'')
                       then (Inl (Response 404 (Message (collections_conflict_message c))), lg)
                       else (Inr (AList.update ''collections'' (JArr [JStr c]) params), lg)))"

text \<open>
  \<^verbatim>\<open>conceptIds.forEach(id => postSearchParams.append('concept_id', id))\<close> under
  \<^verbatim>\<open>if (conceptIds)\<close>: a truthy value that is no array has no \<^verbatim>\<open>forEach\<close>.
\<close>

definition append_concept_ids ::
  "jsval option \<Rightarrow> (string \<times> string) list \<Rightarrow> error + (string \<times> string) list" where
  "append_concept_ids conceptIds postSearchParams =
     (case conceptIds of
        None \<Rightarrow> Inr postSearchParams
      | Some v \<Rightarrow>
          if \<not> truthy v then Inr postSearchParams
          else (case v of
                  JArr ids \<Rightarrow>
                    Inr (postSearchParams @ map (\<lambda>i. (''concept_id'', js_String i)) ids)
                | _ \<Rightarrow> Inl (TypeError ''conceptIds.forEach is not a function'')))"

text \<open>\<^verbatim>\<open>new URLSearchParams(o)\<close>: one pair per key, in order, the value as a string.\<close>

definition URLSearchParams :: "obj \<Rightarrow> (string \<times> string) list" where
  "URLSearchParams ob = map (\<lambda>(k, v). (k, js_String v)) ob"

text \<open>The branch of \<^verbatim>\<open>getItems\<close> for \<^verbatim>\<open>settings.cmrStacRelativeRootUrl === '/cloudstac'\<close>.\<close>

definition getItems_cloud ::
  "('g, 'c, 'd) env \<Rightarrow> string \<Rightarrow> obj \<Rightarrow> ('d outcome + 'g granulesResult) \<times> cmr_call list" where
  "getItems_cloud E providerId cmrParams =
     (let collectionConceptIds = map_of cmrParams ''collection_concept_id'';
          conceptIds = map_of cmrParams ''concept_id'';
          remaining = AList.delete ''concept_id''
                        (AList.delete ''collection_concept_id'' cmrParams)
      in case findCloudCollections (findCollections E) providerId collectionConceptIds of
           (Inl e, lg) \<Rightarrow> (Inl (getItems_catch e), lg)
         | (Inr allCloudCollections, lg) \<Rightarrow>
            (let p0 = URLSearchParams remaining;
                 p1 = (if length allCloudCollections \<noteq> 0
                       then p0 @ map (\<lambda>i. (''collection_concept_id'', i)) allCloudCollections
                       else p0)
             in case append_concept_ids conceptIds p1 of
                  Inl e \<Rightarrow> (Inl (getItems_catch e), lg)
                | Inr postSearchParams \<Rightarrow>
                   (let lg1 = lg @ [FindGranules (SearchParams postSearchParams)]
                    in case findGranules E (SearchParams postSearchParams) of
                         Inl e \<Rightarrow> (Inl (getItems_catch e), lg1)
                       | Inr res \<Rightarrow> (Inr res, lg1))))"

text \<open>From \<^verbatim>\<open>cmr.convertParams\<close> to \<^verbatim>\<open>granulesResult\<close>.\<close>

definition getItems_search ::
  "('g, 'c, 'd) env \<Rightarrow> settings \<Rightarrow> string \<Rightarrow> obj
     \<Rightarrow> ('d outcome + 'g granulesResult) \<times> cmr_call list" where
  "getItems_search E S providerId params =
     (let lg = [ConvertParams providerId params]
      in case convertParams E providerId params of
           Inl e \<Rightarrow> (Inl (getItems_catch e), lg)
         | Inr cmrParams \<Rightarrow>
            (let collectionsRequested = has params ''collections'';
                 validCollections = has cmrParams ''collection_concept_id''
             in if (collectionsRequested \<and> validCollections) \<or> \<not> collectionsRequested then
                  (if cmrStacRelativeRootUrl S = ''/cloudstac'' then
                     (case getItems_cloud E providerId cmrParams of
                        (res, lg1) \<Rightarrow> (res, lg @ lg1))
                   else
                     (let lg1 = lg @ [FindGranules (ParamsObject cmrParams)]
                      in case findGranules E (ParamsObject cmrParams) of
                           Inl e \<Rightarrow> (Inl (getItems_catch e), lg1)
                         | Inr res \<Rightarrow> (Inr res, lg1)))
                else (Inr \<lparr>granules = [], hits = 0\<rparr>, lg)))"

text \<open>From \<^verbatim>\<open>granulesResult\<close> to the answer.\<close>

definition getItems_respond ::
  "('g, 'c, 'd) env \<Rightarrow> request \<Rightarrow> jsval option \<Rightarrow> obj \<Rightarrow> 'g granulesResult \<Rightarrow> 'd outcome" where
  "getItems_respond E request fieldsParam params granulesResult =
     (let params1 = (if truthy_str (params_collectionId request)
                     then AList.delete ''collections'' params else params)
      in case cmrGranulesToStac E (granules granulesResult) (hits granulesResult) params1 of
           Inl e \<Rightarrow> getItems_catch e
         | Inr featureCollection \<Rightarrow>
            (case assertValid_items E featureCollection of
               Some e \<Rightarrow> getItems_catch e
             | None \<Rightarrow>
                (case format E featureCollection fieldsParam granulesResult params1 of
                   Inl e \<Rightarrow> getItems_catch e
                 | Inr formatted \<Rightarrow> Response 200 (Document formatted))))"

text \<open>
  \<^verbatim>\<open>extractParams\<close> runs before the \<^verbatim>\<open>try\<close>: what it throws leaves the handler.
\<close>

definition getItems ::
  "('g, 'c, 'd) env \<Rightarrow> settings \<Rightarrow> request \<Rightarrow> 'd outcome \<times> cmr_call list" where
  "getItems E S request =
     (case extractParams E request of
        Inl e \<Rightarrow> (Rejected e, [])
      | Inr extracted \<Rightarrow>
         (let fieldsParam = map_of extracted ''fields'';
              params = AList.delete ''fields'' extracted
          in case getItems_scope E request params of
               (Inl out, lg1) \<Rightarrow> (out, lg1)
             | (Inr params1, lg1) \<Rightarrow>
                (case getItems_search E S (params_providerId request) params1 of
                   (Inl out, lg2) \<Rightarrow> (out, lg1 @ lg2)
                 | (Inr granulesResult, lg2) \<Rightarrow>
                     (getItems_respond E request fieldsParam params1 granulesResult, lg1 @ lg2))))"

text \<open>The values a \<^verbatim>\<open>URLSearchParams\<close> holds under a name, in order.\<close>

definition getAll :: "(string \<times> string) list \<Rightarrow> string \<Rightarrow> string list" where
  "getAll ps k = map snd (filter (\<lambda>p. fst p = k) ps)"

section \<open>getCatalog\<close>

text \<open>\<^verbatim>\<open>s.split(c)\<close>: the pieces between the separators; one piece when there is none.\<close>

fun split_on :: "char \<Rightarrow> string \<Rightarrow> string list" where
  "split_on c [] = [[]]"
| "split_on c (x # xs) =
     (if x = c then [] # split_on c xs
      else (case split_on c xs of
              [] \<Rightarrow> [[x]]
            | w # ws \<Rightarrow> (x # w) # ws))"

text \<open>
  \<^verbatim>\<open>
  const browseParams = Object.fromEntries(
    params.map((val, idx) => [browseTemplate[idx], val]));
  \<close>
  A segment beyond the template gets the key \<^verbatim>\<open>undefined\<close>; a key that repeats keeps its
  last value.
\<close>

definition browse_params :: "string list \<Rightarrow> string list \<Rightarrow> (string \<times> string) list" where
  "browse_params browseTemplate params =
     fold (\<lambda>(idx, val) a.
             AList.update
               (if idx < length browseTemplate then browseTemplate ! idx else ''undefined'')
               val a)
          (zip [0..<length params] params) []"

text \<open>\<^verbatim>\<open>s.replace(/^(p)/, '')\<close> for a literal prefix \<open>p\<close>.\<close>

definition strip_prefix :: "string \<Rightarrow> string \<Rightarrow> string" where
  "strip_prefix p s = (if take (length p) s = p then drop (length p) s else s)"

text \<open>\<^verbatim>\<open>s.lastIndexOf(c)\<close> (\<open>-1\<close> when absent) and \<^verbatim>\<open>s.slice(0, e)\<close>.\<close>

definition lastIndexOf :: "char \<Rightarrow> string \<Rightarrow> int" where
  "lastIndexOf c s =
     (if c \<in> set s
      then int (length s) - 1 - int (length (takeWhile (\<lambda>x. x \<noteq> c) (rev s)))
      else - 1)"

definition slice0 :: "string \<Rightarrow> int \<Rightarrow> string" where
  "slice0 s e = (if e < 0 then take (nat (int (length s) + e)) s else take (nat e) s)"

text \<open>
  Modelled from the spec: the class \<^verbatim>\<open>Catalog\<close> of \<^verbatim>\<open>../stac/catalog\<close> is not among the
  sources. By the spec a catalog node is an identity (id, title, description), a STAC
  version and an ordered sequence of typed links (self, root, parent, child, item). Each of
  \<^verbatim>\<open>createRoot\<close>, \<^verbatim>\<open>createSelf\<close>, \<^verbatim>\<open>createParent\<close>, \<^verbatim>\<open>addChild\<close> and \<^verbatim>\<open>addItem\<close> adds one
  link of its type, which keeps the arguments of the call.
\<close>

datatype catalog_link =
    RootLink string
  | SelfLink string
  | ParentLink string
  | ChildLink string string
  | ItemLink string string "string option" string

record catalog =
  cat_stac_version :: string
  cat_id :: string
  cat_title :: string
  cat_description :: string
  cat_links :: "catalog_link list"

definition createRoot :: "string \<Rightarrow> catalog \<Rightarrow> catalog" where
  "createRoot url cat = cat\<lparr>cat_links := cat_links cat @ [RootLink url]\<rparr>"

definition createSelf :: "string \<Rightarrow> catalog \<Rightarrow> catalog" where
  "createSelf url cat = cat\<lparr>cat_links := cat_links cat @ [SelfLink url]\<rparr>"

definition createParent :: "string \<Rightarrow> catalog \<Rightarrow> catalog" where
  "createParent url cat = cat\<lparr>cat_links := cat_links cat @ [ParentLink url]\<rparr>"

definition addChild :: "string \<Rightarrow> string \<Rightarrow> catalog \<Rightarrow> catalog" where
  "addChild ttl pth cat = cat\<lparr>cat_links := cat_links cat @ [ChildLink ttl pth]\<rparr>"

definition addItem :: "string \<Rightarrow> string \<Rightarrow> string option \<Rightarrow> string \<Rightarrow> catalog \<Rightarrow> catalog" where
  "addItem ttl providerId collectionId itemId cat =
     cat\<lparr>cat_links := cat_links cat @ [ItemLink ttl providerId collectionId itemId]\<rparr>"

fun is_self :: "catalog_link \<Rightarrow> bool" where
  "is_self (SelfLink u) = True"
| "is_self l = False"

fun is_root :: "catalog_link \<Rightarrow> bool" where
  "is_root (RootLink u) = True"
| "is_root l = False"

fun is_child :: "catalog_link \<Rightarrow> bool" where
  "is_child (ChildLink t p) = True"
| "is_child l = False"

fun is_item :: "catalog_link \<Rightarrow> bool" where
  "is_item (ItemLink t p c i) = True"
| "is_item l = False"

definition getCatalog ::
  "('g, 'c, 'd) env \<Rightarrow> settings \<Rightarrow> request \<Rightarrow> catalog outcome \<times> cmr_call list" where
  "getCatalog E S request =
     (case BROWSE_PATH S of
        None \<Rightarrow> (Rejected (TypeError ''Cannot read properties of undefined (reading split)''), [])
      | Some browsePath \<Rightarrow>
         (let browseTemplate = split_on CHR ''/'' browsePath;
              params = split_on CHR ''/'' (params_0 request);
              browseParams = browse_params browseTemplate params;
              year = map_of browseParams ''year'';
              month = map_of browseParams ''month'';
              day = map_of browseParams ''day'';
              providerId = params_providerId request;
              collectionId = params_collectionId request;
              lg1 = [StacIdToCmrCollectionId providerId collectionId]
          in case stacIdToCmrCollectionId E providerId collectionId of
               Inl e \<Rightarrow> (Rejected e, lg1)
             | Inr cmrCollectionId \<Rightarrow>
                 if \<not> truthy_str cmrCollectionId
                 then (Response 404 (Message (not_found_message collectionId providerId)), lg1)
                 else
                  (let pth = (if cmrStacRelativeRootUrl S = ''/cloudstac''
                              then strip_prefix ''/cloudstac'' (event_path request)
                              else strip_prefix ''/stac'' (event_path request));
                       date = map (\<lambda>ch. if ch = CHR ''/'' then CHR ''-'' else ch)
                                (params_0 request);
                       cat0 = \<lparr>cat_stac_version = stac_version S,
                                cat_id = str_of collectionId @ ''-'' @ date,
                                cat_title = str_of collectionId @ '' '' @ date,
                                cat_description = providerId @ '' sub-catalog for '' @ date,
                                cat_links = []\<rparr>;
                       cat1 = createRoot (generateAppUrl E []) cat0;
                       selfUrl = generateAppUrl E pth;
                       cat2 = createSelf selfUrl cat1;
                       cat3 = createParent
                                (slice0 selfUrl (lastIndexOf CHR ''/'' selfUrl)) cat2;
                       lg2 = lg1 @ [StacCollectionToCmrParams providerId collectionId]
                   in case stacCollectionToCmrParams E providerId collectionId of
                        Inl e \<Rightarrow> (Rejected e, lg2)
                      | Inr cmrParams \<Rightarrow>
                         (let lg3 = lg2 @ [GetGranuleTemporalFacets cmrParams year month day]
                          in case getGranuleTemporalFacets E cmrParams year month day of
                               Inl e \<Rightarrow> (Rejected e, lg3)
                             | Inr fs \<Rightarrow>
                                (let cat4 =
                                   (if truthy_str day then
                                      fold (\<lambda>i. addItem i providerId collectionId i)
                                        (itemids fs) cat3
                                    else if truthy_str month then
                                      fold (\<lambda>d. addChild
                                              (str_of year @ ''-'' @ str_of month @ ''-'' @ d
                                                 @ '' catalog'')
                                              (''/'' @ d))
                                        (days fs) cat3
                                    else if truthy_str year then
                                      fold (\<lambda>m. addChild
                                              (str_of year @ ''-'' @ m @ '' catalog'')
                                              (''/'' @ m))
                                        (months fs) cat3
                                    else cat3)
                                 in (Response 200 (Document cat4), lg3))))))"

section \<open>Concrete services for the examples\<close>

text \<open>
  A Catalog Service that answers pages 1 and 2 with 2000 collections each, page 3 with 500
  and any later page with none.
\<close>

definition stub_page :: "nat \<Rightarrow> nat \<Rightarrow> cmr_coll list" where
  "stub_page j n =
     map (\<lambda>i. \<lparr>coll_id = ''C'' @ dec_nat i @ ''-PAGE'' @ dec_nat j, coll_data = []\<rparr>) [0..<n]"

definition stub_pages :: "nat \<Rightarrow> cmr_coll list" where
  "stub_pages j =
     (if j = 1 \<or> j = 2 then stub_page j 2000 else if j = 3 then stub_page j 500 else [])"

definition stub_findCollections :: "obj \<Rightarrow> error + cmr_coll list" where
  "stub_findCollections q =
     (case map_of q ''page_num'' of
        Some (JNum n) \<Rightarrow> Inr (stub_pages (nat n))
      | _ \<Rightarrow> Inl (Error ''page_num missing''))"

text \<open>A Catalog Service that answers every page with 2000 collections.\<close>

definition always_full :: "obj \<Rightarrow> error + cmr_coll list" where
  "always_full q = Inr (replicate 2000 \<lparr>coll_id = ''C1-PROV'', coll_data = []\<rparr>)"

text \<open>
  Collaborators for the worked examples: the page of \<^verbatim>\<open>generateNavLinks\<close>, the collection
  search, the id lookup and the parameter conversion are chosen per example; validation
  always passes and the converters return fixed documents.
\<close>

definition demo_env ::
  "int \<Rightarrow> (obj \<Rightarrow> error + cmr_coll list)
     \<Rightarrow> (string \<Rightarrow> string option \<Rightarrow> error + string option)
     \<Rightarrow> (string \<Rightarrow> obj \<Rightarrow> error + obj) \<Rightarrow> (string, string, string) env" where
  "demo_env page findColl stacId conv =
     \<lparr>generateAppUrl = (\<lambda>p. ''https://cmr.example/stac'' @ p),
      generateNavLinks =
        \<lparr>currPage = page, prevResultsLink = ''PREV'', nextResultsLink = ''NEXT''\<rparr>,
      parseNumber = (\<lambda>s. if s = ''10'' then Some 10 else None),
      prepare = Inr,
      convertParams = conv,
      findCollections = findColl,
      findGranules = (\<lambda>q. Inr \<lparr>granules = [''G1''], hits = 1\<rparr>),
      stacIdToCmrCollectionId = stacId,
      stacCollectionToCmrParams = (\<lambda>p c. Inr [(''short_name'', JStr (str_of c))]),
      getGranuleTemporalFacets =
        (\<lambda>q y m d. Inr \<lparr>years = [''2001''], months = [''01'', ''02''],
                        days = [''05'', ''06'', ''07''], itemids = [''G1'', ''G2'']\<rparr>),
      cmrCollToWFSColl = (\<lambda>c. \<lparr>coll_links = [], coll_doc = coll_id c\<rparr>),
      cmrGranulesToStac = (\<lambda>gs h p. Inr ''FeatureCollection''),
      assertValid_collections = (\<lambda>d. None),
      assertValid_collection = (\<lambda>d. None),
      assertValid_items = (\<lambda>d. None),
      format = (\<lambda>d f r p. Inr d)\<rparr>"

definition demo_settings :: "string \<Rightarrow> settings" where
  "demo_settings root =
     \<lparr>cmrStacRelativeRootUrl = root, stac_version = ''1.0.0'',
      BROWSE_PATH = Some ''year/month/day''\<rparr>"

text \<open>A GET request of provider PROV, with or without a collection in its path.\<close>

definition demo_request :: "string option \<Rightarrow> obj \<Rightarrow> request" where
  "demo_request c q =
     \<lparr>params_providerId = ''PROV'', params_collectionId = c, params_0 = [],
      query = q, body = [], event_httpMethod = ''GET'',
      event_path = ''/stac/PROV/collections''\<rparr>"

definition some_colls :: "nat \<Rightarrow> cmr_coll list" where
  "some_colls n = replicate n \<lparr>coll_id = ''C1-PROV'', coll_data = []\<rparr>"

text \<open>
  The collections document of provider PROV on the plain STAC root, with the links and the
  number of collections given.
\<close>

definition demo_collections_doc :: "link list \<Rightarrow> nat \<Rightarrow> string collectionsResponse" where
  "demo_collections_doc extra n =
     \<lparr>cr_id = ''PROV'',
      cr_stac_version = ''1.0.0'',
      cr_description = ''All collections provided by PROV'',
      cr_license = ''not-provided'',
      cr_type = ''Catalog'',
      links =
        [\<lparr>rel = ''self'', href = ''https://cmr.example/stac/PROV/collections'',
          title = Some ''All collections provided by PROV''\<rparr>,
         \<lparr>rel = ''root'', href = ''https://cmr.example/stac/'',
          title = Some ''CMR-STAC Root''\<rparr>] @ extra,
      collections = replicate n \<lparr>coll_links = [], coll_doc = ''C1-PROV''\<rparr>\<rparr>"

text \<open>
  A value on which \<^verbatim>\<open>if (v) { v.forEach(...) }\<close> does not throw: absent, falsy, or an
  array.
\<close>

definition array_or_falsy :: "jsval option \<Rightarrow> bool" where
  "array_or_falsy v = (case v of None \<Rightarrow> True | Some (JArr vs) \<Rightarrow> True | Some w \<Rightarrow> \<not> truthy w)"

text \<open>
  The browse examples: collection coll.v1 of PROV, known to the Catalog Service as C1-PROV,
  requested under the date path \<open>w\<close>; and the catalog of its year 2001.
\<close>

definition browse_request :: "string \<Rightarrow> request" where
  "browse_request w =
     \<lparr>params_providerId = ''PROV'', params_collectionId = Some ''coll.v1'', params_0 = w,
      query = [], body = [], event_httpMethod = ''GET'',
      event_path = ''/stac/PROV/collections/coll.v1/'' @ w\<rparr>"

definition browse_env :: "(string, string, string) env" where
  "browse_env = demo_env 1 (\<lambda>q. Inr []) (\<lambda>p c. Inr (Some ''C1-PROV'')) (\<lambda>p q. Inr q)"

definition year_catalog :: catalog where
  "year_catalog =
     \<lparr>cat_stac_version = ''1.0.0'',
      cat_id = ''coll.v1-2001'',
      cat_title = ''coll.v1 2001'',
      cat_description = ''PROV sub-catalog for 2001'',
      cat_links =
        [RootLink ''https://cmr.example/stac'',
         SelfLink ''https://cmr.example/stac/PROV/collections/coll.v1/2001'',
         ParentLink ''https://cmr.example/stac/PROV/collections/coll.v1'',
         ChildLink ''2001-01 catalog'' ''/01'',
         ChildLink ''2001-02 catalog'' ''/02'']\<rparr>"

text \<open>\<^verbatim>\<open>Number\<close> on the two limits of the examples.\<close>

definition demo_Number :: "string \<Rightarrow> int option" where
  "demo_Number s = (if s = ''10'' then Some 10 else if s = ''5'' then Some 5 else None)"

text \<open>The example services of the collections listing, asked with \<^verbatim>\<open>limit=l\<close>.\<close>

definition limit_env :: "int \<Rightarrow> nat \<Rightarrow> (string, string, string) env" where
  "limit_env page n =
     (demo_env page (\<lambda>q. Inr (some_colls n)) (\<lambda>p c. Inr None) (\<lambda>p q. Inr q))
       \<lparr>parseNumber := demo_Number\<rparr>"

section \<open>Properties of findCloudCollections\<close>

lemma findCloudCollections_loop_params:
  "findCloudCollections_loop findColl (AList.update ''page_num'' v params) i acc lg =
   findCloudCollections_loop findColl params i acc lg"
  by (subst (1 2) findCloudCollections_loop.simps) simp

text \<open>Pages \<open>i, \<dots>, k - 1\<close> all full: the loop arrives at page \<open>k\<close> with their ids.\<close>

lemma findCloudCollections_loop_full:
  assumes "i \<le> k" and "k \<le> 10000"
    and "\<And>j. i \<le> j \<Longrightarrow> j < k \<Longrightarrow>
           findColl (AList.update ''page_num'' (JNum (int j)) params) = Inr (pages j)
           \<and> 2000 \<le> length (pages j)"
  shows "findCloudCollections_loop findColl params i acc lg =
         findCloudCollections_loop findColl params k
           (acc @ concat (map (\<lambda>j. map coll_id (pages j)) [i..<k]))
           (lg @ map (\<lambda>j. FindCollections (AList.update ''page_num'' (JNum (int j)) params)) [i..<k])"
  using assms
proof (induction k)
  case 0
  then show ?case by simp
next
  case (Suc k)
  show ?case
  proof (cases "i = Suc k")
    case True
    then show ?thesis by simp
  next
    case False
    with Suc.prems have ik: "i \<le> k" and k: "k < 10000" by simp_all
    have page: "findColl (AList.update ''page_num'' (JNum (int k)) params) = Inr (pages k)"
      and full: "2000 \<le> length (pages k)"
      using Suc.prems(3) [of k] ik by simp_all
    have "findCloudCollections_loop findColl params i acc lg =
          findCloudCollections_loop findColl params k
            (acc @ concat (map (\<lambda>j. map coll_id (pages j)) [i..<k]))
            (lg @ map (\<lambda>j. FindCollections (AList.update ''page_num'' (JNum (int j)) params)) [i..<k])"
      using Suc.IH [OF ik] Suc.prems k by simp
    also have "\<dots> = findCloudCollections_loop findColl params (Suc k)
            (acc @ concat (map (\<lambda>j. map coll_id (pages j)) [i..<Suc k]))
            (lg @ map (\<lambda>j. FindCollections (AList.update ''page_num'' (JNum (int j)) params)) [i..<Suc k])"
      using k page full ik
      by (subst findCloudCollections_loop.simps) (simp add: findCloudCollections_loop_params)
    finally show ?thesis .
  qed
qed

lemma findCloudCollections_loop_short:
  assumes "k < 10000"
    and "findColl (AList.update ''page_num'' (JNum (int k)) params) = Inr pg"
    and "length pg < 2000"
  shows "findCloudCollections_loop findColl params k acc lg =
         (Inr (acc @ map coll_id pg),
          lg @ [FindCollections (AList.update ''page_num'' (JNum (int k)) params)])"
  using assms by (subst findCloudCollections_loop.simps) simp

lemma findCloudCollections_loop_cap:
  "findCloudCollections_loop findColl params 10000 acc lg = (Inr acc, lg)"
  by (subst findCloudCollections_loop.simps) simp

lemma findCloudCollections_start:
  "findCloudCollections findColl providerId cids =
   findCloudCollections_loop findColl (butlast (cloud_page_query providerId cids 0)) 1 [] []"
  by (simp add: findCloudCollections_def cloud_page_query_def butlast_append
      split: option.splits)

lemma cloud_page_query_update:
  "AList.update ''page_num'' (JNum (int n)) (butlast (cloud_page_query providerId cids 0)) =
   cloud_page_query providerId cids n"
  by (simp add: cloud_page_query_def butlast_append split: option.splits)

text \<open>
  The run of the resolver when page \<open>k\<close> is the first short page, or the cap's last page:
  the ids of pages \<open>1, \<dots>, k\<close> in order, after exactly the requests for those pages.
\<close>

lemma findCloudCollections_run:
  assumes k: "1 \<le> k" "k \<le> 9999"
    and pages: "\<And>j. 1 \<le> j \<Longrightarrow> j \<le> k \<Longrightarrow>
           findColl (cloud_page_query providerId cids j) = Inr (pages j)"
    and full: "\<And>j. 1 \<le> j \<Longrightarrow> j < k \<Longrightarrow> 2000 \<le> length (pages j)"
    and stop: "length (pages k) < 2000 \<or> k = 9999"
  shows "findCloudCollections findColl providerId cids =
         (Inr (concat (map (\<lambda>j. map coll_id (pages j)) [1..<Suc k])),
          map (\<lambda>j. FindCollections (cloud_page_query providerId cids j)) [1..<Suc k])"
proof -
  let ?P = "butlast (cloud_page_query providerId cids 0)"
  let ?ids = "\<lambda>j. map coll_id (pages j)"
  let ?call = "\<lambda>j. FindCollections (cloud_page_query providerId cids j)"
  have upd: "\<And>j. AList.update ''page_num'' (JNum (int j)) ?P = cloud_page_query providerId cids j"
    by (rule cloud_page_query_update)
  show ?thesis
  proof (cases "length (pages k) < 2000")
    case True
    have prem: "findColl (AList.update ''page_num'' (JNum (int j)) ?P) = Inr (pages j)
                \<and> 2000 \<le> length (pages j)" if "1 \<le> j" "j < k" for j
      using that pages [of j] full [of j] by (simp add: upd)
    have "findCloudCollections findColl providerId cids =
          findCloudCollections_loop findColl ?P k
            ([] @ concat (map ?ids [1..<k])) ([] @ map ?call [1..<k])"
      unfolding findCloudCollections_start
      using findCloudCollections_loop_full [of 1 k findColl ?P pages "[]" "[]", OF _ _ prem] k
      by (simp add: upd)
    also have "\<dots> = (Inr (([] @ concat (map ?ids [1..<k])) @ map coll_id (pages k)),
                      ([] @ map ?call [1..<k]) @ [?call k])"
      using findCloudCollections_loop_short [of k findColl ?P "pages k"] k pages [of k] True
      by (simp add: upd)
    finally show ?thesis using k by simp
  next
    case False
    with stop have k9: "k = 9999" by simp
    have prem: "findColl (AList.update ''page_num'' (JNum (int j)) ?P) = Inr (pages j)
                \<and> 2000 \<le> length (pages j)" if "1 \<le> j" "j < 10000" for j
    proof (cases "j = k")
      case True
      then show ?thesis using pages [of j] that False by (simp add: upd)
    next
      case False
      then have "j < k" using that k9 by simp
      then show ?thesis using pages [of j] full [of j] that by (simp add: upd)
    qed
    have "findCloudCollections findColl providerId cids =
          findCloudCollections_loop findColl ?P 10000
            ([] @ concat (map ?ids [1..<10000])) ([] @ map ?call [1..<10000])"
      unfolding findCloudCollections_start
      using findCloudCollections_loop_full [of 1 10000 findColl ?P pages "[]" "[]", OF _ _ prem]
      by (simp add: upd)
    then show ?thesis
      by (simp add: findCloudCollections_loop_cap k9)
  qed
qed

text \<open>Whatever the service answers, the loop issues at least one and at most 9999 requests.\<close>

lemma findCloudCollections_loop_calls:
  "i \<le> 10000 \<Longrightarrow>
   length (snd (findCloudCollections_loop findColl params i acc lg)) \<le> length lg + (10000 - i)"
proof (induction findColl params i acc lg rule: findCloudCollections_loop.induct)
  case (1 findColl params i acc lg)
  show ?case
  proof (cases "i < 10000")
    case False
    then show ?thesis by (subst findCloudCollections_loop.simps) simp
  next
    case True
    show ?thesis
    proof (cases "findColl (AList.update ''page_num'' (JNum (int i)) params)")
      case (Inl e)
      with True show ?thesis by (subst findCloudCollections_loop.simps) simp
    next
      case (Inr cs)
      show ?thesis
      proof (cases "length cs < 2000")
        case short: True
        with True Inr show ?thesis by (subst findCloudCollections_loop.simps) simp
      next
        case long: False
        have "length (snd (findCloudCollections_loop findColl
                (AList.update ''page_num'' (JNum (int i)) params) (Suc i)
                (acc @ map coll_id cs)
                (lg @ [FindCollections (AList.update ''page_num'' (JNum (int i)) params)])))
              \<le> length (lg @ [FindCollections (AList.update ''page_num'' (JNum (int i)) params)])
                 + (10000 - Suc i)"
          using "1.IH" [OF True refl refl Inr refl long] True by simp
        with True Inr long show ?thesis
          by (subst findCloudCollections_loop.simps) (simp add: Let_def)
      qed
    qed
  qed
qed

lemma findCloudCollections_calls_le:
  "length (snd (findCloudCollections findColl providerId cids)) \<le> 9999"
  using findCloudCollections_loop_calls
    [of 1 findColl "butlast (cloud_page_query providerId cids 0)" "[]" "[]"]
  by (simp add: findCloudCollections_start)

lemma length_stub_page: "length (stub_page j n) = n"
  by (simp add: stub_page_def)

lemma stub_answers:
  "stub_findCollections (cloud_page_query p c j) = Inr (stub_pages j)"
  by (simp add: stub_findCollections_def cloud_page_query_def split: option.splits)

lemma upt_1_4: "[Suc 0..<4] = [Suc 0, 2, 3]"
  by (simp add: upt_rec)

lemma always_full_run:
  "findCloudCollections always_full p c =
     (Inr (concat (map (\<lambda>j. map coll_id
             (replicate 2000 \<lparr>coll_id = ''C1-PROV'', coll_data = []\<rparr>)) [1..<Suc 9999])),
      map (\<lambda>j. FindCollections (cloud_page_query p c j)) [1..<Suc 9999])"
  by (rule findCloudCollections_run) (simp_all add: always_full_def)

lemma no_cloud_collections:
  "findCloudCollections (\<lambda>q. Inr []) p c = (Inr [], [FindCollections (cloud_page_query p c 1)])"
  using findCloudCollections_run [of 1 "\<lambda>q. Inr []" p c "\<lambda>j. []"] by simp

text \<open>
  C1. \<^verbatim>\<open>findCloudCollections\<close> never issues more than 9999 page requests. When page \<open>k\<close> is
  the first page with fewer than 2000 records (or \<open>k\<close> is 9999 and no page was short), it
  requests exactly the pages \<open>1, \<dots>, k\<close> in order, each with page size 2000, and returns the
  ids of all their records in the order the service gave them.
\<close>

theorem findCloudCollections_pages:
  "length (snd (findCloudCollections findColl providerId cids)) \<le> 9999 \<and>
   (1 \<le> k \<and> k \<le> 9999
    \<and> (\<forall>j. 1 \<le> j \<and> j \<le> k \<longrightarrow> findColl (cloud_page_query providerId cids j) = Inr (pages j))
    \<and> (\<forall>j. 1 \<le> j \<and> j < k \<longrightarrow> 2000 \<le> length (pages j))
    \<and> (length (pages k) < 2000 \<or> k = 9999)
    \<longrightarrow> findCloudCollections findColl providerId cids =
          (Inr (concat (map (\<lambda>j. map coll_id (pages j)) [1..<Suc k])),
           map (\<lambda>j. FindCollections (cloud_page_query providerId cids j)) [1..<Suc k]))"
proof (intro conjI impI)
  show "length (snd (findCloudCollections findColl providerId cids)) \<le> 9999"
    by (rule findCloudCollections_calls_le)
next
  assume "1 \<le> k \<and> k \<le> 9999
    \<and> (\<forall>j. 1 \<le> j \<and> j \<le> k \<longrightarrow> findColl (cloud_page_query providerId cids j) = Inr (pages j))
    \<and> (\<forall>j. 1 \<le> j \<and> j < k \<longrightarrow> 2000 \<le> length (pages j))
    \<and> (length (pages k) < 2000 \<or> k = 9999)"
  then show "findCloudCollections findColl providerId cids =
          (Inr (concat (map (\<lambda>j. map coll_id (pages j)) [1..<Suc k])),
           map (\<lambda>j. FindCollections (cloud_page_query providerId cids j)) [1..<Suc k])"
    by (intro findCloudCollections_run) simp_all
qed

text \<open>
  The example of C1: against the service answering 2000, 2000 and 500 records, the resolver
  returns the 4500 ids of the three pages after exactly 3 page requests.
\<close>

theorem findCloudCollections_pages_witness:
  "length (stub_pages 1) = 2000 \<and> length (stub_pages 2) = 2000 \<and> length (stub_pages 3) = 500
   \<and> findCloudCollections stub_findCollections ''PROV'' None =
       (Inr (map coll_id (stub_pages 1) @ map coll_id (stub_pages 2) @ map coll_id (stub_pages 3)),
        [FindCollections (cloud_page_query ''PROV'' None 1),
         FindCollections (cloud_page_query ''PROV'' None 2),
         FindCollections (cloud_page_query ''PROV'' None 3)])
   \<and> length (map coll_id (stub_pages 1) @ map coll_id (stub_pages 2) @ map coll_id (stub_pages 3))
       = 4500
   \<and> length (snd (findCloudCollections stub_findCollections ''PROV'' None)) = 3"
proof -
  have l1: "length (stub_pages 1) = 2000" and l2: "length (stub_pages 2) = 2000"
    and l3: "length (stub_pages 3) = 500"
    by (simp_all add: stub_pages_def length_stub_page)
  have full: "\<forall>j. 1 \<le> j \<and> j < 3 \<longrightarrow> 2000 \<le> length (stub_pages j)"
  proof (intro allI impI)
    fix j :: nat assume "1 \<le> j \<and> j < 3"
    then have "j = 1 \<or> j = 2" by arith
    then show "2000 \<le> length (stub_pages j)" using l1 l2 by auto
  qed
  have run: "findCloudCollections stub_findCollections ''PROV'' None =
       (Inr (concat (map (\<lambda>j. map coll_id (stub_pages j)) [1..<Suc 3])),
        map (\<lambda>j. FindCollections (cloud_page_query ''PROV'' None j)) [1..<Suc 3])"
    using findCloudCollections_pages
      [of stub_findCollections "''PROV''" None 3 stub_pages] full l3
    by (simp add: stub_answers)
  show ?thesis
    using run l1 l2 l3 by (simp add: upt_1_4)
qed

text \<open>
  C4, as the spec states it, fails: against a service whose every page is full the loop
  runs into its cap of 9999 pages and the resolver returns the 9999 times 2000 ids it has
  accumulated as an ordinary result; no error is raised.
\<close>

theorem cap_reached_returns_normally:
  "fst (findCloudCollections always_full ''PROV'' None) =
     Inr (concat (replicate 9999 (replicate 2000 ''C1-PROV'')))
   \<and> length (snd (findCloudCollections always_full ''PROV'' None)) = 9999"
  by (simp add: always_full_run map_replicate_const del: upt_Suc)

text \<open>
  C4, amended. When every one of the pages 1 to 9999 is answered with at least 2000
  records, \<^verbatim>\<open>findCloudCollections\<close> stops at the cap and returns normally: its result is the
  list of the ids of those 9999 pages, after exactly the 9999 page requests.
\<close>

theorem findCloudCollections_cap:
  "(\<forall>j. 1 \<le> j \<and> j \<le> 9999 \<longrightarrow>
       findColl (cloud_page_query providerId cids j) = Inr (pages j) \<and> 2000 \<le> length (pages j))
   \<longrightarrow> findCloudCollections findColl providerId cids =
        (Inr (concat (map (\<lambda>j. map coll_id (pages j)) [1..<10000])),
         map (\<lambda>j. FindCollections (cloud_page_query providerId cids j)) [1..<10000])"
proof
  assume h: "\<forall>j. 1 \<le> j \<and> j \<le> 9999 \<longrightarrow>
       findColl (cloud_page_query providerId cids j) = Inr (pages j) \<and> 2000 \<le> length (pages j)"
  have "findCloudCollections findColl providerId cids =
        (Inr (concat (map (\<lambda>j. map coll_id (pages j)) [1..<Suc 9999])),
         map (\<lambda>j. FindCollections (cloud_page_query providerId cids j)) [1..<Suc 9999])"
    using h by (intro findCloudCollections_run) simp_all
  then show "findCloudCollections findColl providerId cids =
        (Inr (concat (map (\<lambda>j. map coll_id (pages j)) [1..<10000])),
         map (\<lambda>j. FindCollections (cloud_page_query providerId cids j)) [1..<10000])"
    by (simp del: upt_Suc)
qed

text \<open>C4, amended, on the service whose every page is full.\<close>

theorem findCloudCollections_cap_witness:
  "always_full (cloud_page_query ''PROV'' None 9999) =
     Inr (replicate 2000 \<lparr>coll_id = ''C1-PROV'', coll_data = []\<rparr>)
   \<and> findCloudCollections always_full ''PROV'' None =
       (Inr (concat (map (\<lambda>j. replicate 2000 ''C1-PROV'') [1..<10000])),
        map (\<lambda>j. FindCollections (cloud_page_query ''PROV'' None j)) [1..<10000])"
  using findCloudCollections_cap
    [of always_full "''PROV''" None "\<lambda>j. replicate 2000 \<lparr>coll_id = ''C1-PROV'', coll_data = []\<rparr>"]
  by (simp add: always_full_def)

section \<open>Properties of getCollections\<close>

text \<open>The relations of the links of any collections document the handler answers with.\<close>

lemma getCollections_links:
  assumes "fst (getCollections E S request) = Response st (Document doc)"
  shows "map rel (links doc) =
           [''self'', ''root'']
           @ (if 1 < currPage (generateNavLinks E) then [''prev''] else [])
           @ (if Some (int (length (collections doc)))
                   = pageSize_of (parseNumber E) (query request)
              then [''next''] else [])"
  using assms
  by (auto simp: getCollections_def Let_def getCollections_catch_def createLink_def
      split: sum.splits option.splits if_splits)

text \<open>The handler evaluated on the example services: page, results and \<^verbatim>\<open>limit=10\<close>.\<close>

lemma demo_getCollections:
  "fst (getCollections (demo_env page (\<lambda>q. Inr (some_colls n)) stacId (\<lambda>p q. Inr q))
      (demo_settings ''/stac'') (demo_request None [(''limit'', JStr ''10'')])) =
   Response 200 (Document (demo_collections_doc
     ((if 1 < page then [\<lparr>rel = ''prev'', href = ''PREV'', title = None\<rparr>] else [])
      @ (if n = 10 then [\<lparr>rel = ''next'', href = ''NEXT'', title = None\<rparr>] else [])) n))"
  by (simp add: getCollections_def demo_env_def demo_settings_def demo_request_def Let_def
      createLink_def pageSize_of_def some_colls_def demo_collections_doc_def)

text \<open>
  C2, as the spec states it, fails: on page 2 with no result at all the document carries a
  \<^verbatim>\<open>prev\<close> link, although its only other links are self and root and the result set is
  empty.
\<close>

theorem prev_without_other_links:
  "fst (getCollections (demo_env 2 (\<lambda>q. Inr (some_colls 0)) (\<lambda>p c. Inr None) (\<lambda>p q. Inr q))
      (demo_settings ''/stac'') (demo_request None [(''limit'', JStr ''10'')])) =
   Response 200 (Document
     (demo_collections_doc [\<lparr>rel = ''prev'', href = ''PREV'', title = None\<rparr>] 0))
   \<and> map rel (links (demo_collections_doc [\<lparr>rel = ''prev'', href = ''PREV'', title = None\<rparr>] 0))
       = [''self'', ''root'', ''prev'']
   \<and> collections (demo_collections_doc [\<lparr>rel = ''prev'', href = ''PREV'', title = None\<rparr>] 0) = []"
  by (simp add: demo_getCollections) (simp add: demo_collections_doc_def)

text \<open>
  C2, amended. A collections document carries a \<^verbatim>\<open>prev\<close> link exactly when the current
  page number is greater than 1: the second condition of the code,
  \<^verbatim>\<open>links.length > 1\<close>, always holds, since self and root are there. On a page greater
  than 1 whose result count differs from the page size the links are exactly self, root and
  prev.
\<close>

theorem getCollections_prev:
  "fst (getCollections E S request) = Response st (Document doc) \<longrightarrow>
     (''prev'' \<in> set (map rel (links doc)) \<longleftrightarrow> 1 < currPage (generateNavLinks E))
     \<and> (1 < currPage (generateNavLinks E)
          \<and> Some (int (length (collections doc))) \<noteq> pageSize_of (parseNumber E) (query request)
        \<longrightarrow> map rel (links doc) = [''self'', ''root'', ''prev''])"
proof
  assume "fst (getCollections E S request) = Response st (Document doc)"
  then have "map rel (links doc) =
           [''self'', ''root'']
           @ (if 1 < currPage (generateNavLinks E) then [''prev''] else [])
           @ (if Some (int (length (collections doc)))
                   = pageSize_of (parseNumber E) (query request)
              then [''next''] else [])"
    by (rule getCollections_links)
  then show "(''prev'' \<in> set (map rel (links doc)) \<longleftrightarrow> 1 < currPage (generateNavLinks E))
     \<and> (1 < currPage (generateNavLinks E)
          \<and> Some (int (length (collections doc))) \<noteq> pageSize_of (parseNumber E) (query request)
        \<longrightarrow> map rel (links doc) = [''self'', ''root'', ''prev''])"
    by (simp del: set_map)
qed

text \<open>The example of C2: page 2, 3 results, page size 10.\<close>

theorem getCollections_prev_witness:
  "fst (getCollections (demo_env 2 (\<lambda>q. Inr (some_colls 3)) (\<lambda>p c. Inr None) (\<lambda>p q. Inr q))
      (demo_settings ''/stac'') (demo_request None [(''limit'', JStr ''10'')])) =
   Response 200 (Document
     (demo_collections_doc [\<lparr>rel = ''prev'', href = ''PREV'', title = None\<rparr>] 3))
   \<and> pageSize_of (\<lambda>s. if s = ''10'' then Some 10 else None) [(''limit'', JStr ''10'')] = Some 10
   \<and> length (collections
        (demo_collections_doc [\<lparr>rel = ''prev'', href = ''PREV'', title = None\<rparr>] 3)) = 3
   \<and> map rel (links (demo_collections_doc [\<lparr>rel = ''prev'', href = ''PREV'', title = None\<rparr>] 3))
       = [''self'', ''root'', ''prev'']"
proof -
  let ?E = "demo_env 2 (\<lambda>q. Inr (some_colls 3)) (\<lambda>p c. Inr None) (\<lambda>p q. Inr q)"
  let ?R = "demo_request None [(''limit'', JStr ''10'')]"
  let ?D = "demo_collections_doc [\<lparr>rel = ''prev'', href = ''PREV'', title = None\<rparr>] 3"
  have run: "fst (getCollections ?E (demo_settings ''/stac'') ?R) = Response 200 (Document ?D)"
    by (simp add: demo_getCollections)
  have page: "currPage (generateNavLinks ?E) = 2"
    by (simp add: demo_env_def)
  have size: "pageSize_of (parseNumber ?E) (query ?R) = Some 10"
    by (simp add: demo_env_def demo_request_def pageSize_of_def)
  have len: "length (collections ?D) = 3"
    by (simp add: demo_collections_doc_def)
  have "map rel (links ?D) = [''self'', ''root'', ''prev'']"
    using getCollections_prev [of ?E "demo_settings ''/stac''" ?R 200 ?D] run page size len
    by simp
  then show ?thesis
    using run len by (simp add: pageSize_of_def)
qed

text \<open>The handler on the example services, asked with \<^verbatim>\<open>limit=5\<close> and \<^verbatim>\<open>limit=10\<close>.\<close>

lemma limit_getCollections:
  "fst (getCollections (limit_env page n) (demo_settings ''/stac'')
          (demo_request None [(''limit'', JStr ''5'')])) =
   Response 200 (Document (demo_collections_doc
     ((if 1 < page then [\<lparr>rel = ''prev'', href = ''PREV'', title = None\<rparr>] else [])
      @ (if n = 5 then [\<lparr>rel = ''next'', href = ''NEXT'', title = None\<rparr>] else [])) n))"
  "fst (getCollections (limit_env page n) (demo_settings ''/stac'')
          (demo_request None [(''limit'', JStr ''10'')])) =
   Response 200 (Document (demo_collections_doc
     ((if 1 < page then [\<lparr>rel = ''prev'', href = ''PREV'', title = None\<rparr>] else [])
      @ (if n = 10 then [\<lparr>rel = ''next'', href = ''NEXT'', title = None\<rparr>] else [])) n))"
  by (simp_all add: getCollections_def limit_env_def demo_env_def demo_settings_def
      demo_request_def Let_def createLink_def pageSize_of_def some_colls_def
      demo_collections_doc_def demo_Number_def)

text \<open>
  C3. A collections document carries a \<^verbatim>\<open>next\<close> link exactly when the number of
  collections returned equals the page size the request asked for in its \<^verbatim>\<open>limit\<close>
  parameter: 10 when the parameter is absent or falsy, the number \<open>n\<close> for a number, the
  number the string denotes for a string, and \<^verbatim>\<open>Number\<close> of the value in general. On a
  page that is not beyond the first, a document with a next link has exactly the links
  self, root and next.
\<close>

theorem getCollections_next:
  "fst (getCollections E S request) = Response st (Document doc) \<longrightarrow>
     (map_of (query request) ''limit'' = None \<longrightarrow>
        (''next'' \<in> set (map rel (links doc)) \<longleftrightarrow> length (collections doc) = 10))
     \<and> (map_of (query request) ''limit'' = Some w \<and> \<not> truthy w \<longrightarrow>
        (''next'' \<in> set (map rel (links doc)) \<longleftrightarrow> length (collections doc) = 10))
     \<and> (map_of (query request) ''limit'' = Some (JNum n) \<and> n \<noteq> 0 \<longrightarrow>
        (''next'' \<in> set (map rel (links doc)) \<longleftrightarrow> int (length (collections doc)) = n))
     \<and> (map_of (query request) ''limit'' = Some (JStr s) \<and> s \<noteq> [] \<longrightarrow>
        (''next'' \<in> set (map rel (links doc))
           \<longleftrightarrow> parseNumber E s = Some (int (length (collections doc)))))
     \<and> (map_of (query request) ''limit'' = Some v \<and> truthy v \<longrightarrow>
        (''next'' \<in> set (map rel (links doc))
           \<longleftrightarrow> js_Number (parseNumber E) v = Some (int (length (collections doc)))))
     \<and> (\<not> 1 < currPage (generateNavLinks E) \<and> ''next'' \<in> set (map rel (links doc)) \<longrightarrow>
        map rel (links doc) = [''self'', ''root'', ''next''])"
proof
  assume "fst (getCollections E S request) = Response st (Document doc)"
  then have ls: "map rel (links doc) =
           [''self'', ''root'']
           @ (if 1 < currPage (generateNavLinks E) then [''prev''] else [])
           @ (if Some (int (length (collections doc)))
                   = pageSize_of (parseNumber E) (query request)
              then [''next''] else [])"
    by (rule getCollections_links)
  have nxt: "''next'' \<in> set (map rel (links doc)) \<longleftrightarrow>
             Some (int (length (collections doc))) = pageSize_of (parseNumber E) (query request)"
    by (simp add: ls del: set_map)
  have absent: "map_of (query request) ''limit'' = None \<longrightarrow>
        (''next'' \<in> set (map rel (links doc)) \<longleftrightarrow> length (collections doc) = 10)"
    unfolding nxt by (auto simp: pageSize_of_def)
  have falsy: "map_of (query request) ''limit'' = Some w \<and> \<not> truthy w \<longrightarrow>
        (''next'' \<in> set (map rel (links doc)) \<longleftrightarrow> length (collections doc) = 10)"
    unfolding nxt by (auto simp: pageSize_of_def)
  have num: "map_of (query request) ''limit'' = Some (JNum n) \<and> n \<noteq> 0 \<longrightarrow>
        (''next'' \<in> set (map rel (links doc)) \<longleftrightarrow> int (length (collections doc)) = n)"
    unfolding nxt by (auto simp: pageSize_of_def)
  have str: "map_of (query request) ''limit'' = Some (JStr s) \<and> s \<noteq> [] \<longrightarrow>
        (''next'' \<in> set (map rel (links doc))
           \<longleftrightarrow> parseNumber E s = Some (int (length (collections doc))))"
    unfolding nxt by (auto simp: pageSize_of_def)
  have gen: "map_of (query request) ''limit'' = Some v \<and> truthy v \<longrightarrow>
        (''next'' \<in> set (map rel (links doc))
           \<longleftrightarrow> js_Number (parseNumber E) v = Some (int (length (collections doc))))"
    unfolding nxt by (auto simp: pageSize_of_def)
  have first: "\<not> 1 < currPage (generateNavLinks E) \<and> ''next'' \<in> set (map rel (links doc)) \<longrightarrow>
        map rel (links doc) = [''self'', ''root'', ''next'']"
    unfolding nxt by (simp add: ls)
  from absent falsy num str gen first
  show "(map_of (query request) ''limit'' = None \<longrightarrow>
        (''next'' \<in> set (map rel (links doc)) \<longleftrightarrow> length (collections doc) = 10))
     \<and> (map_of (query request) ''limit'' = Some w \<and> \<not> truthy w \<longrightarrow>
        (''next'' \<in> set (map rel (links doc)) \<longleftrightarrow> length (collections doc) = 10))
     \<and> (map_of (query request) ''limit'' = Some (JNum n) \<and> n \<noteq> 0 \<longrightarrow>
        (''next'' \<in> set (map rel (links doc)) \<longleftrightarrow> int (length (collections doc)) = n))
     \<and> (map_of (query request) ''limit'' = Some (JStr s) \<and> s \<noteq> [] \<longrightarrow>
        (''next'' \<in> set (map rel (links doc))
           \<longleftrightarrow> parseNumber E s = Some (int (length (collections doc)))))
     \<and> (map_of (query request) ''limit'' = Some v \<and> truthy v \<longrightarrow>
        (''next'' \<in> set (map rel (links doc))
           \<longleftrightarrow> js_Number (parseNumber E) v = Some (int (length (collections doc)))))
     \<and> (\<not> 1 < currPage (generateNavLinks E) \<and> ''next'' \<in> set (map rel (links doc)) \<longrightarrow>
        map rel (links doc) = [''self'', ''root'', ''next''])"
    by blast
qed

text \<open>
  C3 on the examples. With \<^verbatim>\<open>limit=5\<close> on page 1, 5 results give exactly self, root and
  next, and 10 results (the default page size, not the requested one) give no next link;
  with \<^verbatim>\<open>limit=10\<close> on page 1, 10 results give exactly self, root and next.
\<close>

theorem getCollections_next_witness:
  "fst (getCollections (limit_env 1 5) (demo_settings ''/stac'')
          (demo_request None [(''limit'', JStr ''5'')])) =
     Response 200 (Document
       (demo_collections_doc [\<lparr>rel = ''next'', href = ''NEXT'', title = None\<rparr>] 5))
   \<and> length (collections
        (demo_collections_doc [\<lparr>rel = ''next'', href = ''NEXT'', title = None\<rparr>] 5)) = 5
   \<and> map rel (links (demo_collections_doc [\<lparr>rel = ''next'', href = ''NEXT'', title = None\<rparr>] 5))
       = [''self'', ''root'', ''next'']
   \<and> fst (getCollections (limit_env 1 10) (demo_settings ''/stac'')
          (demo_request None [(''limit'', JStr ''5'')])) =
     Response 200 (Document (demo_collections_doc [] 10))
   \<and> length (collections (demo_collections_doc [] 10)) = 10
   \<and> ''next'' \<notin> set (map rel (links (demo_collections_doc [] 10)))
   \<and> fst (getCollections (limit_env 1 10) (demo_settings ''/stac'')
          (demo_request None [(''limit'', JStr ''10'')])) =
     Response 200 (Document
       (demo_collections_doc [\<lparr>rel = ''next'', href = ''NEXT'', title = None\<rparr>] 10))
   \<and> length (collections
        (demo_collections_doc [\<lparr>rel = ''next'', href = ''NEXT'', title = None\<rparr>] 10)) = 10
   \<and> map rel (links (demo_collections_doc [\<lparr>rel = ''next'', href = ''NEXT'', title = None\<rparr>] 10))
       = [''self'', ''root'', ''next'']"
proof -
  let ?S = "demo_settings ''/stac''"
  let ?R5 = "demo_request None [(''limit'', JStr ''5'')]"
  let ?R10 = "demo_request None [(''limit'', JStr ''10'')]"
  let ?next = "[\<lparr>rel = ''next'', href = ''NEXT'', title = None\<rparr>]"
  have sel: "parseNumber (limit_env 1 k) = demo_Number"
    "currPage (generateNavLinks (limit_env 1 k)) = 1" for k
    by (simp_all add: limit_env_def demo_env_def)
  have q5: "map_of (query ?R5) ''limit'' = Some (JStr ''5'')"
    and q10: "map_of (query ?R10) ''limit'' = Some (JStr ''10'')"
    by (simp_all add: demo_request_def)
  have len: "length (collections (demo_collections_doc ls k)) = k" for ls k
    by (simp add: demo_collections_doc_def)
  have run1: "fst (getCollections (limit_env 1 5) ?S ?R5) =
                Response 200 (Document (demo_collections_doc ?next 5))"
    and run2: "fst (getCollections (limit_env 1 10) ?S ?R5) =
                Response 200 (Document (demo_collections_doc [] 10))"
    and run3: "fst (getCollections (limit_env 1 10) ?S ?R10) =
                Response 200 (Document (demo_collections_doc ?next 10))"
    by (simp_all add: limit_getCollections)
  have five: "map rel (links (demo_collections_doc ?next 5)) = [''self'', ''root'', ''next'']"
    using getCollections_next
      [of "limit_env 1 5" ?S ?R5 200 "demo_collections_doc ?next 5" _ _ "''5''"]
      run1 q5
    by (simp add: sel len demo_Number_def del: set_map)
  have none: "''next'' \<notin> set (map rel (links (demo_collections_doc [] 10)))"
    using getCollections_next
      [of "limit_env 1 10" ?S ?R5 200 "demo_collections_doc [] 10" _ _ "''5''"]
      run2 q5
    by (simp add: sel len demo_Number_def del: set_map)
  have ten: "map rel (links (demo_collections_doc ?next 10)) = [''self'', ''root'', ''next'']"
    using getCollections_next
      [of "limit_env 1 10" ?S ?R10 200 "demo_collections_doc ?next 10" _ _ "''10''"]
      run3 q10
    by (simp add: sel len demo_Number_def del: set_map)
  from run1 run2 run3 five none ten show ?thesis
    by (simp add: len del: set_map)
qed


section \<open>Properties of getCollection and getItems\<close>

lemma demo_env_sel:
  "prepare (demo_env pg fc si cv) = Inr"
  "convertParams (demo_env pg fc si cv) = cv"
  "findCollections (demo_env pg fc si cv) = fc"
  "stacIdToCmrCollectionId (demo_env pg fc si cv) = si"
  "findGranules (demo_env pg fc si cv) = (\<lambda>q. Inr \<lparr>granules = [''G1''], hits = 1\<rparr>)"
  "stacCollectionToCmrParams (demo_env pg fc si cv) = (\<lambda>p c. Inr [(''short_name'', JStr (str_of c))])"
  by (simp_all add: demo_env_def)

lemma demo_respond:
  "getItems_respond (demo_env pg fc si cv) request f p r = Response 200 (Document ''FeatureCollection'')"
  by (simp add: getItems_respond_def demo_env_def)

lemma getItems_scope_absent:
  "\<not> truthy_str (params_collectionId request) \<Longrightarrow> getItems_scope E request params = (Inr params, [])"
  by (auto simp: getItems_scope_def truthy_str_def split: option.splits)

lemma getItems_scope_not_found:
  assumes "params_collectionId request = Some c" "c \<noteq> []"
    and "stacIdToCmrCollectionId E (params_providerId request) (Some c) = Inr cid"
    and "\<not> truthy_str cid"
  shows "getItems_scope E request params =
           (Inl (Response 404 (Message (not_found_message (Some c) (params_providerId request)))),
            [StacIdToCmrCollectionId (params_providerId request) (Some c)])"
  using assms by (simp add: getItems_scope_def Let_def)

text \<open>
  What the guard of \<^verbatim>\<open>getItems\<close> does catch: with a collection id in the path and a
  truthy \<^verbatim>\<open>collections\<close> among the extracted parameters, the handler answers 404 when
  the id lookup returns (the conflict message when it found the collection, the not-found
  message otherwise) and through its \<^verbatim>\<open>catch\<close> when the lookup throws. The lookup is the
  only call made.
\<close>

lemma getItems_collections_conflict:
  assumes "params_collectionId request = Some c" and "c \<noteq> []"
    and "extractParams E request = Inr extracted"
    and "truthy_opt (map_of extracted ''collections'')"
  shows "getItems E S request =
           (case stacIdToCmrCollectionId E (params_providerId request) (Some c) of
              Inl e \<Rightarrow> getItems_catch e
            | Inr cid \<Rightarrow>
                Response 404 (Message
                  (if truthy_str cid then collections_conflict_message c
                   else not_found_message (Some c) (params_providerId request))),
            [StacIdToCmrCollectionId (params_providerId request) (Some c)])"
  using assms
  by (simp add: getItems_def getItems_scope_def Let_def split: sum.splits)

text \<open>
  C5. The code at the failing input: a GET request for the items of collection coll.v1
  (which the lookup finds) with \<^verbatim>\<open>collections=\<close>, the empty string. The parameter is
  there, as \<^verbatim>\<open>_.has\<close> reads it, but \<^verbatim>\<open>if (params.collections)\<close> is false for it: the
  handler overwrites it with the path's collection, converts the parameters, issues the
  granule search and answers 200.
\<close>

theorem empty_collections_param_dropped:
  "has (query (demo_request (Some ''coll.v1'') [(''collections'', JStr [])])) ''collections''
   \<and> getItems (demo_env 1 (\<lambda>q. Inr []) (\<lambda>p c. Inr (Some ''C1-PROV''))
                 (\<lambda>p q. Inr [(''collection_concept_id'', JArr [JStr ''C1-PROV''])]))
        (demo_settings ''/stac'')
        (demo_request (Some ''coll.v1'') [(''collections'', JStr [])]) =
     (Response 200 (Document ''FeatureCollection''),
      [StacIdToCmrCollectionId ''PROV'' (Some ''coll.v1''),
       ConvertParams ''PROV'' [(''collections'', JArr [JStr ''coll.v1''])],
       FindGranules (ParamsObject [(''collection_concept_id'', JArr [JStr ''C1-PROV''])])])"
  by (simp add: getItems_def extractParams_def getItems_scope_def getItems_search_def
      demo_respond demo_env_sel demo_settings_def demo_request_def truthy_str_def
      truthy_opt_def has_def Let_def)

text \<open>
  C6. When the collection search of \<^verbatim>\<open>getCollection\<close> returns no record, and when the id
  lookup of \<^verbatim>\<open>getItems\<close> returns no concept id, the handler answers 404 with the message
  that names the collection and the provider, and makes no further call on the Catalog
  Service; it answers with no document.
\<close>

theorem collection_not_found_404:
  "(params_collectionId request = Some c
      \<and> stacCollectionToCmrParams E (params_providerId request) (Some c) = Inr cmrParams
      \<and> findCollections E cmrParams = Inr []
    \<longrightarrow> getCollection E S request =
          (Response 404 (Message (''Collection ['' @ c @ ''] not found for provider [''
              @ params_providerId request @ '']'')),
           [StacCollectionToCmrParams (params_providerId request) (Some c),
            FindCollections cmrParams]))
   \<and> (params_collectionId request = Some c \<and> c \<noteq> []
      \<and> extractParams E request = Inr extracted
      \<and> stacIdToCmrCollectionId E (params_providerId request) (Some c) = Inr cid
      \<and> \<not> truthy_str cid
    \<longrightarrow> getItems E S request =
          (Response 404 (Message (''Collection ['' @ c @ ''] not found for provider [''
              @ params_providerId request @ '']'')),
           [StacIdToCmrCollectionId (params_providerId request) (Some c)]))"
proof (intro conjI impI)
  assume "params_collectionId request = Some c
      \<and> stacCollectionToCmrParams E (params_providerId request) (Some c) = Inr cmrParams
      \<and> findCollections E cmrParams = Inr []"
  then show "getCollection E S request =
          (Response 404 (Message (''Collection ['' @ c @ ''] not found for provider [''
              @ params_providerId request @ '']'')),
           [StacCollectionToCmrParams (params_providerId request) (Some c),
            FindCollections cmrParams])"
    by (simp add: getCollection_def not_found_message_def str_of_def Let_def)
next
  assume h: "params_collectionId request = Some c \<and> c \<noteq> []
      \<and> extractParams E request = Inr extracted
      \<and> stacIdToCmrCollectionId E (params_providerId request) (Some c) = Inr cid
      \<and> \<not> truthy_str cid"
  then have "getItems_scope E request (AList.delete ''fields'' extracted) =
           (Inl (Response 404 (Message (not_found_message (Some c) (params_providerId request)))),
            [StacIdToCmrCollectionId (params_providerId request) (Some c)])"
    using getItems_scope_not_found [of request c E cid] by blast
  with h show "getItems E S request =
          (Response 404 (Message (''Collection ['' @ c @ ''] not found for provider [''
              @ params_providerId request @ '']'')),
           [StacIdToCmrCollectionId (params_providerId request) (Some c)])"
    by (simp add: getItems_def not_found_message_def str_of_def Let_def)
qed

text \<open>The two cases of C6 on the example services, for collection coll.v1 of PROV.\<close>

theorem collection_not_found_404_witness:
  "findCollections (demo_env 1 (\<lambda>q. Inr []) (\<lambda>p c. Inr None) (\<lambda>p q. Inr q))
      [(''short_name'', JStr ''coll.v1'')] = Inr []
   \<and> getCollection (demo_env 1 (\<lambda>q. Inr []) (\<lambda>p c. Inr None) (\<lambda>p q. Inr q))
       (demo_settings ''/stac'') (demo_request (Some ''coll.v1'') []) =
     (Response 404 (Message ''Collection [coll.v1] not found for provider [PROV]''),
      [StacCollectionToCmrParams ''PROV'' (Some ''coll.v1''),
       FindCollections [(''short_name'', JStr ''coll.v1'')]])
   \<and> stacIdToCmrCollectionId (demo_env 1 (\<lambda>q. Inr []) (\<lambda>p c. Inr None) (\<lambda>p q. Inr q))
       ''PROV'' (Some ''coll.v1'') = Inr None
   \<and> getItems (demo_env 1 (\<lambda>q. Inr []) (\<lambda>p c. Inr None) (\<lambda>p q. Inr q))
       (demo_settings ''/stac'') (demo_request (Some ''coll.v1'') []) =
     (Response 404 (Message ''Collection [coll.v1] not found for provider [PROV]''),
      [StacIdToCmrCollectionId ''PROV'' (Some ''coll.v1'')])"
proof -
  let ?E = "demo_env 1 (\<lambda>q. Inr []) (\<lambda>p c. Inr None) (\<lambda>p q. Inr q)"
  let ?R = "demo_request (Some ''coll.v1'') []"
  note inst = collection_not_found_404
    [of ?R "''coll.v1''" ?E "[(''short_name'', JStr ''coll.v1'')]" "demo_settings ''/stac''"
        "[]" None]
  have "getCollection ?E (demo_settings ''/stac'') ?R =
     (Response 404 (Message ''Collection [coll.v1] not found for provider [PROV]''),
      [StacCollectionToCmrParams ''PROV'' (Some ''coll.v1''),
       FindCollections [(''short_name'', JStr ''coll.v1'')]])"
    using inst [THEN conjunct1]
    by (simp add: demo_env_sel demo_request_def str_of_def)
  moreover have "getItems ?E (demo_settings ''/stac'') ?R =
     (Response 404 (Message ''Collection [coll.v1] not found for provider [PROV]''),
      [StacIdToCmrCollectionId ''PROV'' (Some ''coll.v1'')])"
    using inst [THEN conjunct2]
    by (simp add: demo_env_sel demo_request_def extractParams_def truthy_str_def)
  ultimately show ?thesis
    by (simp add: demo_env_sel)
qed

section \<open>Properties of the cloud-only search of getItems\<close>

lemma has_delete_fields:
  "has (AList.delete ''fields'' ob) ''collections'' = has ob ''collections''"
  by (simp add: has_def)

lemma URLSearchParams_keys: "map fst (URLSearchParams ob) = map fst ob"
  by (induction ob) (auto simp: URLSearchParams_def)

lemma getAll_absent: "k \<notin> set (map fst ps) \<Longrightarrow> getAll ps k = []"
  by (induction ps) (auto simp: getAll_def)

lemma getAll_append: "getAll (ps @ qs) k = getAll ps k @ getAll qs k"
  by (simp add: getAll_def)

lemma getAll_same: "getAll (map (\<lambda>i. (k, f i)) xs) k = map f xs"
  by (induction xs) (auto simp: getAll_def)

lemma getAll_other: "k' \<noteq> k \<Longrightarrow> getAll (map (\<lambda>i. (k', f i)) xs) k = []"
  by (induction xs) (auto simp: getAll_def)

lemma getAll_remaining:
  "getAll (URLSearchParams (AList.delete ''concept_id''
      (AList.delete ''collection_concept_id'' ob))) ''collection_concept_id'' = []"
  by (rule getAll_absent) (simp add: URLSearchParams_keys AList.delete_keys)

lemma append_concept_ids_ok:
  assumes "array_or_falsy v"
  shows "\<exists>extra. append_concept_ids v ps = Inr (ps @ extra)
           \<and> getAll extra ''collection_concept_id'' = []"
proof (cases v)
  case None
  then show ?thesis by (simp add: append_concept_ids_def getAll_def)
next
  case (Some w)
  show ?thesis
  proof (cases "truthy w")
    case False
    with Some show ?thesis by (simp add: append_concept_ids_def getAll_def)
  next
    case True
    with Some assms obtain vs where "w = JArr vs"
      by (cases w) (simp_all add: array_or_falsy_def)
    with Some show ?thesis
      by (simp add: append_concept_ids_def getAll_other)
  qed
qed

lemma getItems_cloud_search:
  assumes res: "findCloudCollections (findCollections E) providerId
                  (map_of cmrParams ''collection_concept_id'') = (Inr ids, lg)"
    and ok: "array_or_falsy (map_of cmrParams ''concept_id'')"
  shows "\<exists>sp. getItems_cloud E providerId cmrParams =
                 (case findGranules E (SearchParams sp) of
                    Inl e \<Rightarrow> Inl (getItems_catch e) | Inr r \<Rightarrow> Inr r,
                  lg @ [FindGranules (SearchParams sp)])
              \<and> getAll sp ''collection_concept_id'' = ids"
proof -
  let ?p0 = "URLSearchParams (AList.delete ''concept_id''
               (AList.delete ''collection_concept_id'' cmrParams))"
  let ?p1 = "?p0 @ map (\<lambda>i. (''collection_concept_id'', i)) ids"
  obtain extra where extra: "append_concept_ids (map_of cmrParams ''concept_id'') ?p1
                               = Inr (?p1 @ extra)"
    and none: "getAll extra ''collection_concept_id'' = []"
    using append_concept_ids_ok [OF ok] by blast
  have p1: "(if length ids \<noteq> 0 then ?p1 else ?p0) = ?p1"
    by simp
  have run: "getItems_cloud E providerId cmrParams =
          (case findGranules E (SearchParams (?p1 @ extra)) of
             Inl e \<Rightarrow> Inl (getItems_catch e) | Inr r \<Rightarrow> Inr r,
           lg @ [FindGranules (SearchParams (?p1 @ extra))])"
    unfolding getItems_cloud_def Let_def res prod.case sum.case p1 extra
    by (simp split: sum.splits)
  have "getAll (?p1 @ extra) ''collection_concept_id'' = ids"
    using getAll_same [of "''collection_concept_id''" "\<lambda>i. i" ids]
    by (simp add: getAll_append getAll_remaining none)
  with run show ?thesis by blast
qed

lemma getItems_search_cloud:
  assumes cloud: "cmrStacRelativeRootUrl S = ''/cloudstac''"
    and conv: "convertParams E providerId params = Inr cmrParams"
    and cond: "has params ''collections'' \<longrightarrow> has cmrParams ''collection_concept_id''"
    and res: "findCloudCollections (findCollections E) providerId
                  (map_of cmrParams ''collection_concept_id'') = (Inr ids, lg)"
    and ok: "array_or_falsy (map_of cmrParams ''concept_id'')"
  shows "\<exists>sp. getItems_search E S providerId params =
                 (case findGranules E (SearchParams sp) of
                    Inl e \<Rightarrow> Inl (getItems_catch e) | Inr r \<Rightarrow> Inr r,
                  ConvertParams providerId params # lg @ [FindGranules (SearchParams sp)])
              \<and> getAll sp ''collection_concept_id'' = ids"
proof -
  obtain sp where sp: "getItems_cloud E providerId cmrParams =
                 (case findGranules E (SearchParams sp) of
                    Inl e \<Rightarrow> Inl (getItems_catch e) | Inr r \<Rightarrow> Inr r,
                  lg @ [FindGranules (SearchParams sp)])"
    and ids: "getAll sp ''collection_concept_id'' = ids"
    using getItems_cloud_search [OF res ok] by blast
  have "getItems_search E S providerId params =
                 (case findGranules E (SearchParams sp) of
                    Inl e \<Rightarrow> Inl (getItems_catch e) | Inr r \<Rightarrow> Inr r,
                  ConvertParams providerId params # lg @ [FindGranules (SearchParams sp)])"
    using cloud conv cond by (auto simp: getItems_search_def Let_def sp)
  with ids show ?thesis by blast
qed

lemma getItems_after_search:
  assumes "extractParams E request = Inr extracted"
    and "getItems_scope E request (AList.delete ''fields'' extracted) = (Inr params, lg0)"
    and "getItems_search E S (params_providerId request) params =
           (case found of Inl e \<Rightarrow> Inl (getItems_catch e) | Inr r \<Rightarrow> Inr r, lg1)"
  shows "getItems E S request =
           (case found of
              Inl e \<Rightarrow> getItems_catch e
            | Inr r \<Rightarrow> getItems_respond E request (map_of extracted ''fields'') params r,
            lg0 @ lg1)"
  using assms by (simp add: getItems_def Let_def split: sum.splits)

text \<open>
  C7. In cloud-only mode, for a request with no collection in its path and no
  \<^verbatim>\<open>collections\<close> parameter, when the resolver returns no cloud-holding collection the
  granule search is still issued, once, with a \<^verbatim>\<open>URLSearchParams\<close> that has no
  \<^verbatim>\<open>collection_concept_id\<close> entry, and the answer is built from what that search returns.
\<close>

theorem cloud_search_without_collections:
  "cmrStacRelativeRootUrl S = ''/cloudstac''
   \<and> \<not> truthy_str (params_collectionId request)
   \<and> extractParams E request = Inr extracted
   \<and> \<not> has extracted ''collections''
   \<and> convertParams E (params_providerId request) (AList.delete ''fields'' extracted)
       = Inr cmrParams
   \<and> array_or_falsy (map_of cmrParams ''concept_id'')
   \<and> findCloudCollections (findCollections E) (params_providerId request)
        (map_of cmrParams ''collection_concept_id'') = (Inr [], lg)
   \<longrightarrow> (\<exists>sp. snd (getItems E S request) =
                ConvertParams (params_providerId request) (AList.delete ''fields'' extracted)
                  # lg @ [FindGranules (SearchParams sp)]
             \<and> getAll sp ''collection_concept_id'' = []
             \<and> fst (getItems E S request) =
                 (case findGranules E (SearchParams sp) of
                    Inl e \<Rightarrow> getItems_catch e
                  | Inr r \<Rightarrow> getItems_respond E request (map_of extracted ''fields'')
                             (AList.delete ''fields'' extracted) r))"
proof
  let ?p = "params_providerId request"
  let ?params = "AList.delete ''fields'' extracted"
  assume h: "cmrStacRelativeRootUrl S = ''/cloudstac''
   \<and> \<not> truthy_str (params_collectionId request)
   \<and> extractParams E request = Inr extracted
   \<and> \<not> has extracted ''collections''
   \<and> convertParams E ?p ?params = Inr cmrParams
   \<and> array_or_falsy (map_of cmrParams ''concept_id'')
   \<and> findCloudCollections (findCollections E) ?p
        (map_of cmrParams ''collection_concept_id'') = (Inr [], lg)"
  then have scope: "getItems_scope E request ?params = (Inr ?params, [])"
    by (simp add: getItems_scope_absent)
  have notreq: "has ?params ''collections'' \<longrightarrow> has cmrParams ''collection_concept_id''"
    using h by (simp add: has_delete_fields)
  obtain sp where search: "getItems_search E S ?p ?params =
                 (case findGranules E (SearchParams sp) of
                    Inl e \<Rightarrow> Inl (getItems_catch e) | Inr r \<Rightarrow> Inr r,
                  ConvertParams ?p ?params # lg @ [FindGranules (SearchParams sp)])"
    and ids: "getAll sp ''collection_concept_id'' = []"
    using getItems_search_cloud [of S E ?p ?params cmrParams "[]" lg] h notreq by auto
  have "getItems E S request =
           (case findGranules E (SearchParams sp) of
              Inl e \<Rightarrow> getItems_catch e
            | Inr r \<Rightarrow> getItems_respond E request (map_of extracted ''fields'') ?params r,
            [] @ ConvertParams ?p ?params # lg @ [FindGranules (SearchParams sp)])"
    using getItems_after_search [of E request extracted ?params "[]" S] h scope search by blast
  with ids show "\<exists>sp. snd (getItems E S request) =
                ConvertParams ?p ?params # lg @ [FindGranules (SearchParams sp)]
             \<and> getAll sp ''collection_concept_id'' = []
             \<and> fst (getItems E S request) =
                 (case findGranules E (SearchParams sp) of
                    Inl e \<Rightarrow> getItems_catch e
                  | Inr r \<Rightarrow> getItems_respond E request (map_of extracted ''fields'') ?params r)"
    by (intro exI [of _ sp]) simp
qed

text \<open>The case of C7 on the example services.\<close>

theorem cloud_search_without_collections_witness:
  "findCloudCollections (findCollections (demo_env 1 (\<lambda>q. Inr []) (\<lambda>p c. Inr None) (\<lambda>p q. Inr [(''temporal'', JStr ''2001'')])))
      ''PROV'' None = (Inr [], [FindCollections (cloud_page_query ''PROV'' None 1)])
   \<and> getItems (demo_env 1 (\<lambda>q. Inr []) (\<lambda>p c. Inr None) (\<lambda>p q. Inr [(''temporal'', JStr ''2001'')]))
       (demo_settings ''/cloudstac'') (demo_request None [(''datetime'', JStr ''2001'')]) =
     (Response 200 (Document ''FeatureCollection''),
      [ConvertParams ''PROV'' [(''datetime'', JStr ''2001'')],
       FindCollections (cloud_page_query ''PROV'' None 1),
       FindGranules (SearchParams [(''temporal'', ''2001'')])])
   \<and> (\<exists>sp. snd (getItems (demo_env 1 (\<lambda>q. Inr []) (\<lambda>p c. Inr None) (\<lambda>p q. Inr [(''temporal'', JStr ''2001'')]))
                   (demo_settings ''/cloudstac'') (demo_request None [(''datetime'', JStr ''2001'')]))
              = [ConvertParams ''PROV'' [(''datetime'', JStr ''2001'')],
                 FindCollections (cloud_page_query ''PROV'' None 1),
                 FindGranules (SearchParams sp)]
            \<and> getAll sp ''collection_concept_id'' = [])"
proof -
  let ?E = "demo_env 1 (\<lambda>q. Inr []) (\<lambda>p c. Inr None) (\<lambda>p q. Inr [(''temporal'', JStr ''2001'')])"
  let ?S = "demo_settings ''/cloudstac''"
  let ?R = "demo_request None [(''datetime'', JStr ''2001'')]"
  have resolver: "findCloudCollections (findCollections ?E) ''PROV'' None =
                    (Inr [], [FindCollections (cloud_page_query ''PROV'' None 1)])"
    by (simp add: demo_env_sel no_cloud_collections)
  have run: "getItems ?E ?S ?R =
     (Response 200 (Document ''FeatureCollection''),
      [ConvertParams ''PROV'' [(''datetime'', JStr ''2001'')],
       FindCollections (cloud_page_query ''PROV'' None 1),
       FindGranules (SearchParams [(''temporal'', ''2001'')])])"
    by (simp add: getItems_def extractParams_def getItems_scope_def getItems_search_def
        getItems_cloud_def append_concept_ids_def URLSearchParams_def demo_respond
        demo_env_sel demo_settings_def demo_request_def has_def Let_def
        no_cloud_collections)
  have "\<exists>sp. snd (getItems ?E ?S ?R) =
                ConvertParams (params_providerId ?R) (AList.delete ''fields'' [(''datetime'', JStr ''2001'')])
                  # [FindCollections (cloud_page_query ''PROV'' None 1)]
                  @ [FindGranules (SearchParams sp)]
             \<and> getAll sp ''collection_concept_id'' = []
             \<and> fst (getItems ?E ?S ?R) =
                 (case findGranules ?E (SearchParams sp) of
                    Inl e \<Rightarrow> getItems_catch e
                  | Inr r \<Rightarrow> getItems_respond ?E ?R (map_of [(''datetime'', JStr ''2001'')] ''fields'')
                             (AList.delete ''fields'' [(''datetime'', JStr ''2001'')]) r)"
    using cloud_search_without_collections
      [of ?S ?R ?E "[(''datetime'', JStr ''2001'')]" "[(''temporal'', JStr ''2001'')]"
          "[FindCollections (cloud_page_query ''PROV'' None 1)]"]
      resolver
    by (simp add: demo_env_sel demo_settings_def demo_request_def extractParams_def
        truthy_str_def has_def array_or_falsy_def)
  then have "\<exists>sp. snd (getItems ?E ?S ?R) =
                [ConvertParams ''PROV'' [(''datetime'', JStr ''2001'')],
                 FindCollections (cloud_page_query ''PROV'' None 1),
                 FindGranules (SearchParams sp)]
             \<and> getAll sp ''collection_concept_id'' = []"
    by (auto simp: demo_request_def)
  with resolver run show ?thesis by blast
qed

text \<open>
  C10. In cloud-only mode, when the converted query has \<^verbatim>\<open>collection_concept_id\<close> values,
  the granule search is issued once, after the resolver's page requests, with a
  \<^verbatim>\<open>URLSearchParams\<close> whose \<^verbatim>\<open>collection_concept_id\<close> values are exactly the ids the
  resolver returned: none at all when it returned none. The values the query had are
  deleted and never put back themselves.
\<close>

theorem cloud_search_requested_collections:
  "cmrStacRelativeRootUrl S = ''/cloudstac''
   \<and> extractParams E request = Inr extracted
   \<and> getItems_scope E request (AList.delete ''fields'' extracted) = (Inr params, lg0)
   \<and> convertParams E (params_providerId request) params = Inr cmrParams
   \<and> map_of cmrParams ''collection_concept_id'' = Some requested
   \<and> array_or_falsy (map_of cmrParams ''concept_id'')
   \<and> findCloudCollections (findCollections E) (params_providerId request) (Some requested)
       = (Inr cloudIds, lg)
   \<longrightarrow> (\<exists>sp. snd (getItems E S request) =
                lg0 @ ConvertParams (params_providerId request) params # lg
                  @ [FindGranules (SearchParams sp)]
             \<and> getAll sp ''collection_concept_id'' = cloudIds
             \<and> fst (getItems E S request) =
                 (case findGranules E (SearchParams sp) of
                    Inl e \<Rightarrow> getItems_catch e
                  | Inr r \<Rightarrow> getItems_respond E request (map_of extracted ''fields'') params r))"
proof
  assume h: "cmrStacRelativeRootUrl S = ''/cloudstac''
   \<and> extractParams E request = Inr extracted
   \<and> getItems_scope E request (AList.delete ''fields'' extracted) = (Inr params, lg0)
   \<and> convertParams E (params_providerId request) params = Inr cmrParams
   \<and> map_of cmrParams ''collection_concept_id'' = Some requested
   \<and> array_or_falsy (map_of cmrParams ''concept_id'')
   \<and> findCloudCollections (findCollections E) (params_providerId request) (Some requested)
       = (Inr cloudIds, lg)"
  then have valid: "has params ''collections'' \<longrightarrow> has cmrParams ''collection_concept_id''"
    by (simp add: has_def)
  obtain sp where search: "getItems_search E S (params_providerId request) params =
                 (case findGranules E (SearchParams sp) of
                    Inl e \<Rightarrow> Inl (getItems_catch e) | Inr r \<Rightarrow> Inr r,
                  ConvertParams (params_providerId request) params # lg
                    @ [FindGranules (SearchParams sp)])"
    and ids: "getAll sp ''collection_concept_id'' = cloudIds"
    using getItems_search_cloud [of S E "params_providerId request" params cmrParams cloudIds lg]
      h valid by auto
  have "getItems E S request =
           (case findGranules E (SearchParams sp) of
              Inl e \<Rightarrow> getItems_catch e
            | Inr r \<Rightarrow> getItems_respond E request (map_of extracted ''fields'') params r,
            lg0 @ ConvertParams (params_providerId request) params # lg
                    @ [FindGranules (SearchParams sp)])"
    using getItems_after_search [of E request extracted params lg0 S] h search by blast
  with ids show "\<exists>sp. snd (getItems E S request) =
                lg0 @ ConvertParams (params_providerId request) params # lg
                  @ [FindGranules (SearchParams sp)]
             \<and> getAll sp ''collection_concept_id'' = cloudIds
             \<and> fst (getItems E S request) =
                 (case findGranules E (SearchParams sp) of
                    Inl e \<Rightarrow> getItems_catch e
                  | Inr r \<Rightarrow> getItems_respond E request (map_of extracted ''fields'') params r)"
    by (intro exI [of _ sp]) simp
qed

text \<open>
  The case of C10 on the example services: coll.v1 is converted to concept id C1-PROV, no
  collection is cloud-holding, and the search goes out with the temporal filter alone.
\<close>

theorem cloud_search_requested_collections_witness:
  "findCloudCollections
      (findCollections (demo_env 1 (\<lambda>q. Inr []) (\<lambda>p c. Inr (Some ''C1-PROV''))
         (\<lambda>p q. Inr [(''collection_concept_id'', JArr [JStr ''C1-PROV'']),
                      (''temporal'', JStr ''2001'')])))
      ''PROV'' (Some (JArr [JStr ''C1-PROV''])) =
     (Inr [], [FindCollections (cloud_page_query ''PROV'' (Some (JArr [JStr ''C1-PROV''])) 1)])
   \<and> getItems (demo_env 1 (\<lambda>q. Inr []) (\<lambda>p c. Inr (Some ''C1-PROV''))
         (\<lambda>p q. Inr [(''collection_concept_id'', JArr [JStr ''C1-PROV'']),
                      (''temporal'', JStr ''2001'')]))
       (demo_settings ''/cloudstac'') (demo_request (Some ''coll.v1'') []) =
     (Response 200 (Document ''FeatureCollection''),
      [StacIdToCmrCollectionId ''PROV'' (Some ''coll.v1''),
       ConvertParams ''PROV'' [(''collections'', JArr [JStr ''coll.v1''])],
       FindCollections (cloud_page_query ''PROV'' (Some (JArr [JStr ''C1-PROV''])) 1),
       FindGranules (SearchParams [(''temporal'', ''2001'')])])
   \<and> (\<exists>sp. snd (getItems (demo_env 1 (\<lambda>q. Inr []) (\<lambda>p c. Inr (Some ''C1-PROV''))
                     (\<lambda>p q. Inr [(''collection_concept_id'', JArr [JStr ''C1-PROV'']),
                                  (''temporal'', JStr ''2001'')]))
                   (demo_settings ''/cloudstac'') (demo_request (Some ''coll.v1'') []))
              = [StacIdToCmrCollectionId ''PROV'' (Some ''coll.v1''),
                 ConvertParams ''PROV'' [(''collections'', JArr [JStr ''coll.v1''])],
                 FindCollections (cloud_page_query ''PROV'' (Some (JArr [JStr ''C1-PROV''])) 1),
                 FindGranules (SearchParams sp)]
            \<and> getAll sp ''collection_concept_id'' = [])"
proof -
  let ?cp = "[(''collection_concept_id'', JArr [JStr ''C1-PROV'']), (''temporal'', JStr ''2001'')]"
  let ?E = "demo_env 1 (\<lambda>q. Inr []) (\<lambda>p c. Inr (Some ''C1-PROV'')) (\<lambda>p q. Inr ?cp)"
  let ?S = "demo_settings ''/cloudstac''"
  let ?R = "demo_request (Some ''coll.v1'') []"
  let ?ids = "Some (JArr [JStr ''C1-PROV''])"
  let ?params = "[(''collections'', JArr [JStr ''coll.v1''])]"
  have resolver: "findCloudCollections (findCollections ?E) ''PROV'' ?ids =
                    (Inr [], [FindCollections (cloud_page_query ''PROV'' ?ids 1)])"
    by (simp add: demo_env_sel no_cloud_collections)
  have scope: "getItems_scope ?E ?R (AList.delete ''fields'' []) =
                 (Inr ?params, [StacIdToCmrCollectionId ''PROV'' (Some ''coll.v1'')])"
    by (simp add: getItems_scope_def demo_env_sel demo_request_def truthy_str_def
        truthy_opt_def Let_def)
  have run: "getItems ?E ?S ?R =
     (Response 200 (Document ''FeatureCollection''),
      [StacIdToCmrCollectionId ''PROV'' (Some ''coll.v1''),
       ConvertParams ''PROV'' ?params,
       FindCollections (cloud_page_query ''PROV'' ?ids 1),
       FindGranules (SearchParams [(''temporal'', ''2001'')])])"
    by (simp add: getItems_def extractParams_def getItems_scope_def getItems_search_def
        getItems_cloud_def append_concept_ids_def URLSearchParams_def demo_respond
        demo_env_sel demo_settings_def demo_request_def has_def Let_def truthy_str_def
        truthy_opt_def no_cloud_collections)
  have "\<exists>sp. snd (getItems ?E ?S ?R) =
                [StacIdToCmrCollectionId ''PROV'' (Some ''coll.v1'')]
                  @ ConvertParams (params_providerId ?R) ?params
                  # [FindCollections (cloud_page_query ''PROV'' ?ids 1)]
                  @ [FindGranules (SearchParams sp)]
             \<and> getAll sp ''collection_concept_id'' = []
             \<and> fst (getItems ?E ?S ?R) =
                 (case findGranules ?E (SearchParams sp) of
                    Inl e \<Rightarrow> getItems_catch e
                  | Inr r \<Rightarrow> getItems_respond ?E ?R (map_of [] ''fields'') ?params r)"
    using cloud_search_requested_collections
      [of ?S ?E ?R "[]" ?params "[StacIdToCmrCollectionId ''PROV'' (Some ''coll.v1'')]" ?cp
          "JArr [JStr ''C1-PROV'']" "[]"
          "[FindCollections (cloud_page_query ''PROV'' ?ids 1)]"]
      resolver scope
    by (simp add: demo_env_sel demo_settings_def demo_request_def extractParams_def
        array_or_falsy_def)
  then have "\<exists>sp. snd (getItems ?E ?S ?R) =
                [StacIdToCmrCollectionId ''PROV'' (Some ''coll.v1''),
                 ConvertParams ''PROV'' ?params,
                 FindCollections (cloud_page_query ''PROV'' ?ids 1),
                 FindGranules (SearchParams sp)]
             \<and> getAll sp ''collection_concept_id'' = []"
    by (auto simp: demo_request_def)
  with resolver run show ?thesis by blast
qed

section \<open>Properties of getCatalog\<close>

lemma fold_addItem:
  "cat_links (fold (\<lambda>i. addItem (t i) p c (u i)) xs cat) =
   cat_links cat @ map (\<lambda>i. ItemLink (t i) p c (u i)) xs"
  by (induction xs arbitrary: cat) (simp_all add: addItem_def)

lemma fold_addChild:
  "cat_links (fold (\<lambda>d. addChild (t d) (u d)) xs cat) =
   cat_links cat @ map (\<lambda>d. ChildLink (t d) (u d)) xs"
  by (induction xs arbitrary: cat) (simp_all add: addChild_def)

lemma slice_lastIndexOf:
  assumes "c \<in> set s"
  shows "\<exists>seg. s = slice0 s (lastIndexOf c s) @ c # seg \<and> c \<notin> set seg"
proof -
  define t where "t = takeWhile (\<lambda>x. x \<noteq> c) (rev s)"
  define d where "d = dropWhile (\<lambda>x. x \<noteq> c) (rev s)"
  have "d \<noteq> []"
    using assms by (auto simp: d_def)
  then obtain x d' where d: "d = x # d'"
    by (cases d) auto
  have "\<not> (hd d \<noteq> c)"
    unfolding d_def using \<open>d \<noteq> []\<close> [unfolded d_def] by (rule hd_dropWhile)
  with d have x: "x = c" by simp
  have "rev s = t @ d"
    by (simp add: t_def d_def)
  then have "rev (rev s) = rev (t @ c # d')"
    using d x by simp
  then have s: "s = rev d' @ c # rev t"
    by simp
  have notin: "c \<notin> set (rev t)"
    using set_takeWhileD [of c "\<lambda>x. x \<noteq> c" "rev s"] by (auto simp: t_def)
  have "lastIndexOf c s = int (length s) - 1 - int (length t)"
    using assms by (simp add: lastIndexOf_def t_def)
  also have "\<dots> = int (length d')"
    by (subst s) simp
  finally have "slice0 s (lastIndexOf c s) = take (length d') s"
    by (simp add: slice0_def)
  also have "\<dots> = rev d'"
    by (subst s) simp
  finally show ?thesis
    using s notin by auto
qed

lemma browse_params_1:
  "browse_params [''year'', ''month'', ''day''] [y] = [(''year'', y)]"
  by (simp add: browse_params_def)

lemma browse_params_2:
  "browse_params [''year'', ''month'', ''day''] [y, m] = [(''year'', y), (''month'', m)]"
  by (simp add: browse_params_def upt_rec)

lemma browse_params_3:
  "browse_params [''year'', ''month'', ''day''] [y, m, d]
     = [(''year'', y), (''month'', m), (''day'', d)]"
  by (simp add: browse_params_def upt_rec)

lemma getCatalog_links:
  assumes "fst (getCatalog E S request) = Response st (Document cat)"
  shows "\<exists>selfUrl rest.
           cat_links cat =
             RootLink (generateAppUrl E []) # SelfLink selfUrl
               # ParentLink (slice0 selfUrl (lastIndexOf CHR ''/'' selfUrl)) # rest
           \<and> (\<exists>p. selfUrl = generateAppUrl E p)
           \<and> ((\<forall>l \<in> set rest. is_item l) \<or> (\<forall>l \<in> set rest. is_child l))"
  using assms
  by (auto simp: getCatalog_def Let_def createRoot_def createSelf_def createParent_def
      fold_addItem fold_addChild split: option.splits sum.splits if_splits)

lemma only_items:
  assumes "\<forall>l \<in> set rest. is_item l"
  shows "filter is_self rest = []" and "filter is_root rest = []" and "filter is_child rest = []"
proof -
  have "\<not> is_self l \<and> \<not> is_root l \<and> \<not> is_child l" if "is_item l" for l
    using that by (cases l) simp_all
  with assms show "filter is_self rest = []" and "filter is_root rest = []"
    and "filter is_child rest = []"
    by (auto simp: filter_empty_conv)
qed

lemma only_children:
  assumes "\<forall>l \<in> set rest. is_child l"
  shows "filter is_self rest = []" and "filter is_root rest = []" and "filter is_item rest = []"
proof -
  have "\<not> is_self l \<and> \<not> is_root l \<and> \<not> is_item l" if "is_child l" for l
    using that by (cases l) simp_all
  with assms show "filter is_self rest = []" and "filter is_root rest = []"
    and "filter is_item rest = []"
    by (auto simp: filter_empty_conv)
qed

lemma getCatalog_run:
  assumes bp: "BROWSE_PATH S = Some ''year/month/day''"
    and lookup: "stacIdToCmrCollectionId E (params_providerId request)
                   (params_collectionId request) = Inr cid" "truthy_str cid"
    and cp: "stacCollectionToCmrParams E (params_providerId request)
               (params_collectionId request) = Inr cmrParams"
    and segs: "browse_params [''year'', ''month'', ''day'']
                 (split_on CHR ''/'' (params_0 request)) = bps"
    and fs: "getGranuleTemporalFacets E cmrParams (map_of bps ''year'') (map_of bps ''month'')
               (map_of bps ''day'') = Inr fs"
  shows "\<exists>cat. fst (getCatalog E S request) = Response 200 (Document cat)
           \<and> filter is_child (cat_links cat) =
               (if truthy_str (map_of bps ''day'') then []
                else if truthy_str (map_of bps ''month'') then
                  map (\<lambda>d. ChildLink (str_of (map_of bps ''year'') @ ''-''
                              @ str_of (map_of bps ''month'') @ ''-'' @ d @ '' catalog'')
                            (''/'' @ d)) (days fs)
                else if truthy_str (map_of bps ''year'') then
                  map (\<lambda>m. ChildLink (str_of (map_of bps ''year'') @ ''-'' @ m @ '' catalog'')
                            (''/'' @ m)) (months fs)
                else [])
           \<and> filter is_item (cat_links cat) =
               (if truthy_str (map_of bps ''day'') then
                  map (\<lambda>i. ItemLink i (params_providerId request) (params_collectionId request) i)
                    (itemids fs)
                else [])"
  using assms
  by (simp add: getCatalog_def Let_def createRoot_def createSelf_def createParent_def
      fold_addItem fold_addChild filter_empty_conv)

lemma browse_env_sel:
  "stacIdToCmrCollectionId browse_env = (\<lambda>p c. Inr (Some ''C1-PROV''))"
  "stacCollectionToCmrParams browse_env = (\<lambda>p c. Inr [(''short_name'', JStr (str_of c))])"
  "getGranuleTemporalFacets browse_env =
     (\<lambda>q y m d. Inr \<lparr>years = [''2001''], months = [''01'', ''02''],
                     days = [''05'', ''06'', ''07''], itemids = [''G1'', ''G2'']\<rparr>)"
  "generateAppUrl browse_env = (\<lambda>p. ''https://cmr.example/stac'' @ p)"
  by (simp_all add: browse_env_def demo_env_def)

lemma year_catalog_run:
  "getCatalog browse_env (demo_settings ''/stac'') (browse_request ''2001'') =
     (Response 200 (Document year_catalog),
      [StacIdToCmrCollectionId ''PROV'' (Some ''coll.v1''),
       StacCollectionToCmrParams ''PROV'' (Some ''coll.v1''),
       GetGranuleTemporalFacets [(''short_name'', JStr ''coll.v1'')] (Some ''2001'') None None])"
  by (simp add: getCatalog_def browse_env_sel demo_settings_def browse_request_def Let_def
      browse_params_1 truthy_str_def str_of_def strip_prefix_def lastIndexOf_def slice0_def
      createRoot_def createSelf_def createParent_def addChild_def year_catalog_def)

text \<open>
  C8. With the browse template year/month/day and a collection the lookup finds: for the
  one segment \<open>y\<close> the catalog's child links are one per month of the facets, in order, and
  it has no item link; for the segments \<open>y\<close>, \<open>m\<close> they are one per day of the facets, and
  it has no item link; for \<open>y\<close>, \<open>m\<close>, \<open>d\<close> its item links are one per granule id of the
  facets and it has no child link.
\<close>

theorem getCatalog_date_segments:
  "BROWSE_PATH S = Some ''year/month/day''
   \<and> stacIdToCmrCollectionId E (params_providerId request) (params_collectionId request)
        = Inr cid
   \<and> truthy_str cid
   \<and> stacCollectionToCmrParams E (params_providerId request) (params_collectionId request)
        = Inr cmrParams
   \<longrightarrow>
     (split_on CHR ''/'' (params_0 request) = [y] \<and> y \<noteq> []
        \<and> getGranuleTemporalFacets E cmrParams (Some y) None None = Inr fs
      \<longrightarrow> (\<exists>cat. fst (getCatalog E S request) = Response 200 (Document cat)
             \<and> filter is_child (cat_links cat) =
                 map (\<lambda>m. ChildLink (y @ ''-'' @ m @ '' catalog'') (''/'' @ m)) (months fs)
             \<and> filter is_item (cat_links cat) = []))
   \<and> (split_on CHR ''/'' (params_0 request) = [y, m] \<and> m \<noteq> []
        \<and> getGranuleTemporalFacets E cmrParams (Some y) (Some m) None = Inr fs
      \<longrightarrow> (\<exists>cat. fst (getCatalog E S request) = Response 200 (Document cat)
             \<and> filter is_child (cat_links cat) =
                 map (\<lambda>d. ChildLink (y @ ''-'' @ m @ ''-'' @ d @ '' catalog'') (''/'' @ d))
                   (days fs)
             \<and> filter is_item (cat_links cat) = []))
   \<and> (split_on CHR ''/'' (params_0 request) = [y, m, d] \<and> d \<noteq> []
        \<and> getGranuleTemporalFacets E cmrParams (Some y) (Some m) (Some d) = Inr fs
      \<longrightarrow> (\<exists>cat. fst (getCatalog E S request) = Response 200 (Document cat)
             \<and> filter is_item (cat_links cat) =
                 map (\<lambda>i. ItemLink i (params_providerId request) (params_collectionId request) i)
                   (itemids fs)
             \<and> filter is_child (cat_links cat) = []))"
proof (intro impI conjI)
  assume h: "BROWSE_PATH S = Some ''year/month/day''
   \<and> stacIdToCmrCollectionId E (params_providerId request) (params_collectionId request)
        = Inr cid
   \<and> truthy_str cid
   \<and> stacCollectionToCmrParams E (params_providerId request) (params_collectionId request)
        = Inr cmrParams"
  assume y: "split_on CHR ''/'' (params_0 request) = [y] \<and> y \<noteq> []
        \<and> getGranuleTemporalFacets E cmrParams (Some y) None None = Inr fs"
  show "\<exists>cat. fst (getCatalog E S request) = Response 200 (Document cat)
             \<and> filter is_child (cat_links cat) =
                 map (\<lambda>m. ChildLink (y @ ''-'' @ m @ '' catalog'') (''/'' @ m)) (months fs)
             \<and> filter is_item (cat_links cat) = []"
    using getCatalog_run [of S E request cid cmrParams "[(''year'', y)]" fs] h y
    by (simp add: browse_params_1 truthy_str_def str_of_def)
next
  assume h: "BROWSE_PATH S = Some ''year/month/day''
   \<and> stacIdToCmrCollectionId E (params_providerId request) (params_collectionId request)
        = Inr cid
   \<and> truthy_str cid
   \<and> stacCollectionToCmrParams E (params_providerId request) (params_collectionId request)
        = Inr cmrParams"
  assume ym: "split_on CHR ''/'' (params_0 request) = [y, m] \<and> m \<noteq> []
        \<and> getGranuleTemporalFacets E cmrParams (Some y) (Some m) None = Inr fs"
  show "\<exists>cat. fst (getCatalog E S request) = Response 200 (Document cat)
             \<and> filter is_child (cat_links cat) =
                 map (\<lambda>d. ChildLink (y @ ''-'' @ m @ ''-'' @ d @ '' catalog'') (''/'' @ d))
                   (days fs)
             \<and> filter is_item (cat_links cat) = []"
    using getCatalog_run [of S E request cid cmrParams "[(''year'', y), (''month'', m)]" fs] h ym
    by (simp add: browse_params_2 truthy_str_def str_of_def)
next
  assume h: "BROWSE_PATH S = Some ''year/month/day''
   \<and> stacIdToCmrCollectionId E (params_providerId request) (params_collectionId request)
        = Inr cid
   \<and> truthy_str cid
   \<and> stacCollectionToCmrParams E (params_providerId request) (params_collectionId request)
        = Inr cmrParams"
  assume ymd: "split_on CHR ''/'' (params_0 request) = [y, m, d] \<and> d \<noteq> []
        \<and> getGranuleTemporalFacets E cmrParams (Some y) (Some m) (Some d) = Inr fs"
  show "\<exists>cat. fst (getCatalog E S request) = Response 200 (Document cat)
             \<and> filter is_item (cat_links cat) =
                 map (\<lambda>i. ItemLink i (params_providerId request) (params_collectionId request) i)
                   (itemids fs)
             \<and> filter is_child (cat_links cat) = []"
    using getCatalog_run
      [of S E request cid cmrParams "[(''year'', y), (''month'', m), (''day'', d)]" fs] h ymd
    by (auto simp: browse_params_3 truthy_str_def str_of_def)
qed

text \<open>C8 on the paths 2001, 2001/01 and 2001/01/05.\<close>

theorem getCatalog_date_segments_witness:
  "(\<exists>cat. fst (getCatalog browse_env (demo_settings ''/stac'') (browse_request ''2001''))
            = Response 200 (Document cat)
          \<and> filter is_child (cat_links cat) =
              [ChildLink ''2001-01 catalog'' ''/01'', ChildLink ''2001-02 catalog'' ''/02'']
          \<and> filter is_item (cat_links cat) = [])
   \<and> (\<exists>cat. fst (getCatalog browse_env (demo_settings ''/stac'') (browse_request ''2001/01''))
            = Response 200 (Document cat)
          \<and> filter is_child (cat_links cat) =
              [ChildLink ''2001-01-05 catalog'' ''/05'', ChildLink ''2001-01-06 catalog'' ''/06'',
               ChildLink ''2001-01-07 catalog'' ''/07'']
          \<and> filter is_item (cat_links cat) = [])
   \<and> (\<exists>cat. fst (getCatalog browse_env (demo_settings ''/stac'') (browse_request ''2001/01/05''))
            = Response 200 (Document cat)
          \<and> filter is_item (cat_links cat) =
              [ItemLink ''G1'' ''PROV'' (Some ''coll.v1'') ''G1'',
               ItemLink ''G2'' ''PROV'' (Some ''coll.v1'') ''G2'']
          \<and> filter is_child (cat_links cat) = [])"
proof -
  let ?S = "demo_settings ''/stac''"
  let ?cp = "[(''short_name'', JStr ''coll.v1'')]"
  let ?fs = "\<lparr>years = [''2001''], months = [''01'', ''02''],
              days = [''05'', ''06'', ''07''], itemids = [''G1'', ''G2'']\<rparr>"
  have year: "\<exists>cat. fst (getCatalog browse_env ?S (browse_request ''2001''))
            = Response 200 (Document cat)
          \<and> filter is_child (cat_links cat) =
              [ChildLink ''2001-01 catalog'' ''/01'', ChildLink ''2001-02 catalog'' ''/02'']
          \<and> filter is_item (cat_links cat) = []"
    using getCatalog_date_segments
      [of ?S browse_env "browse_request ''2001''" "Some ''C1-PROV''" ?cp "''2001''" ?fs,
       THEN mp, THEN conjunct1]
    by (simp add: browse_env_sel demo_settings_def browse_request_def truthy_str_def
        str_of_def)
  have month: "\<exists>cat. fst (getCatalog browse_env ?S (browse_request ''2001/01''))
            = Response 200 (Document cat)
          \<and> filter is_child (cat_links cat) =
              [ChildLink ''2001-01-05 catalog'' ''/05'', ChildLink ''2001-01-06 catalog'' ''/06'',
               ChildLink ''2001-01-07 catalog'' ''/07'']
          \<and> filter is_item (cat_links cat) = []"
    using getCatalog_date_segments
      [of ?S browse_env "browse_request ''2001/01''" "Some ''C1-PROV''" ?cp "''2001''" ?fs
          "''01''",
       THEN mp, THEN conjunct2, THEN conjunct1]
    by (simp add: browse_env_sel demo_settings_def browse_request_def truthy_str_def
        str_of_def)
  have day: "\<exists>cat. fst (getCatalog browse_env ?S (browse_request ''2001/01/05''))
            = Response 200 (Document cat)
          \<and> filter is_item (cat_links cat) =
              [ItemLink ''G1'' ''PROV'' (Some ''coll.v1'') ''G1'',
               ItemLink ''G2'' ''PROV'' (Some ''coll.v1'') ''G2'']
          \<and> filter is_child (cat_links cat) = []"
    using getCatalog_date_segments
      [of ?S browse_env "browse_request ''2001/01/05''" "Some ''C1-PROV''" ?cp "''2001''" ?fs
          "''01''" "''05''",
       THEN mp, THEN conjunct2, THEN conjunct2]
    by (simp add: browse_env_sel demo_settings_def browse_request_def truthy_str_def
        str_of_def)
  from year month day show ?thesis by blast
qed

text \<open>
  C9. Every catalog \<^verbatim>\<open>getCatalog\<close> answers with has exactly one self link and exactly one
  root link, and a parent link; where the application's URLs contain a slash, the self URL
  is the parent URL followed by a slash and one segment without a slash. Child links and
  item links never both appear.
\<close>

theorem getCatalog_node_links:
  "fst (getCatalog E S request) = Response st (Document cat)
   \<and> (\<forall>p. CHR ''/'' \<in> set (generateAppUrl E p))
   \<longrightarrow> length (filter is_self (cat_links cat)) = 1
       \<and> length (filter is_root (cat_links cat)) = 1
       \<and> (\<exists>selfUrl parentUrl segment.
             SelfLink selfUrl \<in> set (cat_links cat)
             \<and> ParentLink parentUrl \<in> set (cat_links cat)
             \<and> selfUrl = parentUrl @ CHR ''/'' # segment
             \<and> CHR ''/'' \<notin> set segment)
       \<and> (filter is_child (cat_links cat) = [] \<or> filter is_item (cat_links cat) = [])"
proof
  assume h: "fst (getCatalog E S request) = Response st (Document cat)
   \<and> (\<forall>p. CHR ''/'' \<in> set (generateAppUrl E p))"
  then obtain selfUrl rest where
    ls: "cat_links cat =
           RootLink (generateAppUrl E []) # SelfLink selfUrl
             # ParentLink (slice0 selfUrl (lastIndexOf CHR ''/'' selfUrl)) # rest"
    and url: "\<exists>p. selfUrl = generateAppUrl E p"
    and rest: "(\<forall>l \<in> set rest. is_item l) \<or> (\<forall>l \<in> set rest. is_child l)"
    using getCatalog_links [of E S request st cat] by blast
  from url h have "CHR ''/'' \<in> set selfUrl" by auto
  then obtain segment where
    seg: "selfUrl = slice0 selfUrl (lastIndexOf CHR ''/'' selfUrl) @ CHR ''/'' # segment"
    and noslash: "CHR ''/'' \<notin> set segment"
    using slice_lastIndexOf [of "CHR ''/''" selfUrl] by blast
  have counts: "length (filter is_self (cat_links cat)) = 1
       \<and> length (filter is_root (cat_links cat)) = 1
       \<and> (filter is_child (cat_links cat) = [] \<or> filter is_item (cat_links cat) = [])"
    using rest by (auto simp: ls only_items only_children)
  have parent: "\<exists>selfUrl parentUrl segment.
             SelfLink selfUrl \<in> set (cat_links cat)
             \<and> ParentLink parentUrl \<in> set (cat_links cat)
             \<and> selfUrl = parentUrl @ CHR ''/'' # segment
             \<and> CHR ''/'' \<notin> set segment"
  proof (intro exI conjI)
    show "SelfLink selfUrl \<in> set (cat_links cat)" by (simp add: ls)
    show "ParentLink (slice0 selfUrl (lastIndexOf CHR ''/'' selfUrl)) \<in> set (cat_links cat)"
      by (simp add: ls)
    show "selfUrl = slice0 selfUrl (lastIndexOf CHR ''/'' selfUrl) @ CHR ''/'' # segment"
      by (rule seg)
    show "CHR ''/'' \<notin> set segment" by (rule noslash)
  qed
  from counts parent
  show "length (filter is_self (cat_links cat)) = 1
       \<and> length (filter is_root (cat_links cat)) = 1
       \<and> (\<exists>selfUrl parentUrl segment.
             SelfLink selfUrl \<in> set (cat_links cat)
             \<and> ParentLink parentUrl \<in> set (cat_links cat)
             \<and> selfUrl = parentUrl @ CHR ''/'' # segment
             \<and> CHR ''/'' \<notin> set segment)
       \<and> (filter is_child (cat_links cat) = [] \<or> filter is_item (cat_links cat) = [])"
    by blast
qed

text \<open>C9 on the catalog of the year 2001.\<close>

theorem getCatalog_node_links_witness:
  "getCatalog browse_env (demo_settings ''/stac'') (browse_request ''2001'') =
     (Response 200 (Document year_catalog),
      [StacIdToCmrCollectionId ''PROV'' (Some ''coll.v1''),
       StacCollectionToCmrParams ''PROV'' (Some ''coll.v1''),
       GetGranuleTemporalFacets [(''short_name'', JStr ''coll.v1'')] (Some ''2001'') None None])
   \<and> length (filter is_self (cat_links year_catalog)) = 1
   \<and> length (filter is_root (cat_links year_catalog)) = 1
   \<and> SelfLink ''https://cmr.example/stac/PROV/collections/coll.v1/2001''
        \<in> set (cat_links year_catalog)
   \<and> ParentLink ''https://cmr.example/stac/PROV/collections/coll.v1''
        \<in> set (cat_links year_catalog)
   \<and> (\<exists>selfUrl parentUrl segment.
         SelfLink selfUrl \<in> set (cat_links year_catalog)
         \<and> ParentLink parentUrl \<in> set (cat_links year_catalog)
         \<and> selfUrl = parentUrl @ CHR ''/'' # segment
         \<and> CHR ''/'' \<notin> set segment)
   \<and> filter is_item (cat_links year_catalog) = []"
proof -
  have "fst (getCatalog browse_env (demo_settings ''/stac'') (browse_request ''2001''))
          = Response 200 (Document year_catalog)"
    by (simp add: year_catalog_run)
  moreover have "\<forall>p. CHR ''/'' \<in> set (generateAppUrl browse_env p)"
    by (simp add: browse_env_sel)
  ultimately have "length (filter is_self (cat_links year_catalog)) = 1
       \<and> length (filter is_root (cat_links year_catalog)) = 1
       \<and> (\<exists>selfUrl parentUrl segment.
             SelfLink selfUrl \<in> set (cat_links year_catalog)
             \<and> ParentLink parentUrl \<in> set (cat_links year_catalog)
             \<and> selfUrl = parentUrl @ CHR ''/'' # segment
             \<and> CHR ''/'' \<notin> set segment)
       \<and> (filter is_child (cat_links year_catalog) = []
            \<or> filter is_item (cat_links year_catalog) = [])"
    using getCatalog_node_links
      [of browse_env "demo_settings ''/stac''" "browse_request ''2001''" 200 year_catalog]
    by blast
  moreover have "filter is_item (cat_links year_catalog) = []"
    and "SelfLink ''https://cmr.example/stac/PROV/collections/coll.v1/2001''
           \<in> set (cat_links year_catalog)"
    and "ParentLink ''https://cmr.example/stac/PROV/collections/coll.v1''
           \<in> set (cat_links year_catalog)"
    by (simp_all add: year_catalog_def)
  ultimately show ?thesis
    by (simp add: year_catalog_run)
qed

end
